theory Spec2Isabelle
  imports Complex_Main "HOL-Library.Word"
begin

unbundle bit_operations_syntax

section \<open>Machine types and constants of mcc172.c\<close>

type_synonym u8 = "8 word"
type_synonym u16 = "16 word"
type_synonym u32 = "32 word"

text \<open>The start byte of every frame and the sizes of the two headers.\<close>

definition MSG_START :: u8 where
  "MSG_START = 0xDB"

definition MSG_TX_HEADER_SIZE :: nat where
  "MSG_TX_HEADER_SIZE = 4"

definition MSG_RX_HEADER_SIZE :: nat where
  "MSG_RX_HEADER_SIZE = 5"

definition MAX_TX_DATA_SIZE :: nat where
  "MAX_TX_DATA_SIZE = 256"

definition MSG_RX_INDEX_COMMAND :: nat where
  "MSG_RX_INDEX_COMMAND = 1"

definition MSG_RX_INDEX_STATUS :: nat where
  "MSG_RX_INDEX_STATUS = 2"

definition MSG_RX_INDEX_COUNT_LOW :: nat where
  "MSG_RX_INDEX_COUNT_LOW = 3"

definition MSG_RX_INDEX_COUNT_HIGH :: nat where
  "MSG_RX_INDEX_COUNT_HIGH = 4"

definition MSG_RX_INDEX_DATA :: nat where
  "MSG_RX_INDEX_DATA = 5"

section \<open>The framing codec\<close>

subsection \<open>\<open>_parse_buffer\<close>\<close>

text \<open>
  The local variables of \<open>_parse_buffer\<close>. The C names \<open>_remaining\<close>, \<open>_frame_length\<close>
  and \<open>_frame_start\<close> lose their leading underscore and get the prefix \<open>l_\<close>.
  All counters are \<open>uint16_t\<close> in the source, so they are 16-bit words and wrap.
\<close>

record parse_vars =
  found_frame :: bool
  parse_state :: int
  data_count :: u16
  data_index :: u16
  l_remaining :: u16
  l_frame_length :: u16
  l_frame_start :: u16

text \<open>The initialisation before the \<open>for\<close> loop.\<close>

definition parse_init :: parse_vars where
  "parse_init = \<lparr> found_frame = False, parse_state = 0, data_count = 0, data_index = 0,
     l_remaining = 0, l_frame_length = 0, l_frame_start = 0 \<rparr>"

text \<open>
  One execution of the loop body, the \<open>switch (parse_state)\<close>, on the byte \<open>ptr[index]\<close>.
  The cases are in the order of the source.
\<close>

definition parse_body :: "u8 list \<Rightarrow> u16 \<Rightarrow> parse_vars \<Rightarrow> parse_vars" where
  "parse_body ptr index v =
    (if parse_state v = 0 then
       (if MSG_START = ptr ! unat index
        then v\<lparr> l_frame_start := index, data_count := 0, data_index := 0,
                parse_state := parse_state v + 1 \<rparr>
        else v)
     else if parse_state v = 1 then v\<lparr> parse_state := parse_state v + 1 \<rparr>
     else if parse_state v = 2 then v\<lparr> parse_state := parse_state v + 1 \<rparr>
     else if parse_state v = 3 then
       v\<lparr> data_count := ucast (ptr ! unat index), parse_state := parse_state v + 1 \<rparr>
     else if parse_state v = 4 then
       (let dc = data_count v OR push_bit 8 (ucast (ptr ! unat index)) in
        if dc = 0
        then v\<lparr> data_count := dc, l_remaining := 0, found_frame := True,
                l_frame_length := of_nat MSG_RX_HEADER_SIZE, parse_state := 6 \<rparr>
        else v\<lparr> data_count := dc, l_remaining := dc, parse_state := parse_state v + 1 \<rparr>)
     else if parse_state v = 5 then
       (let v1 = v\<lparr> l_remaining := l_remaining v - 1, data_index := data_index v + 1 \<rparr> in
        if data_index v1 \<ge> data_count v1
        then v1\<lparr> parse_state := parse_state v1 + 1, found_frame := True,
                 l_frame_length := data_count v1 + of_nat MSG_RX_HEADER_SIZE \<rparr>
        else v1)
     else if parse_state v = 6 then v
     else v\<lparr> parse_state := 0 \<rparr>)"

text \<open>
  The loop \<open>for (index = 0; (index < length) && !found_frame; index++)\<close>. The index is a
  \<open>uint16_t\<close>; it is below \<open>length\<close> whenever it is incremented, so the loop ends.
\<close>

function parse_loop :: "u8 list \<Rightarrow> u16 \<Rightarrow> u16 \<Rightarrow> parse_vars \<Rightarrow> parse_vars" where
  "parse_loop ptr len index v =
    (if index < len \<and> \<not> found_frame v
     then parse_loop ptr len (index + 1) (parse_body ptr index v)
     else v)"
  by pat_completeness auto
termination
proof (relation "measure (\<lambda>(ptr, len, index, v). unat len - unat index)")
  show "wf (measure (\<lambda>(ptr, len, index, v). unat len - unat index))"
    by simp
next
  fix ptr :: "u8 list" and len index :: u16 and v :: parse_vars
  assume "index < len \<and> \<not> found_frame v"
  then have lt: "index < len" by simp
  then have below: "unat index < unat len"
    by (simp add: word_less_nat_alt)
  have "unat len < 2 ^ 16"
    using unsigned_less [of len] by simp
  with below have "unat (index + 1) = Suc (unat index)"
    by (simp add: unat_word_ariths)
  with below show "((ptr, len, index + 1, parse_body ptr index v), (ptr, len, index, v))
      \<in> measure (\<lambda>(ptr, len, index, v). unat len - unat index)"
    by simp
qed

declare parse_loop.simps [simp del]

text \<open>The three out-parameters and the return value of \<open>_parse_buffer\<close>.\<close>

record parse_result =
  found :: bool
  frame_start :: u16
  frame_length :: u16
  remaining :: u16

definition parse_buffer :: "u8 list \<Rightarrow> u16 \<Rightarrow> parse_result" where
  "parse_buffer buffer len =
    (let v = parse_loop buffer len 0 parse_init in
     \<lparr> found = found_frame v, frame_start = l_frame_start v,
       frame_length = l_frame_length v, remaining = l_remaining v \<rparr>)"

subsection \<open>\<open>_create_frame\<close>\<close>

text \<open>\<open>memcpy(&dst[at], src, n)\<close> on byte lists.\<close>

definition memcpy_at :: "'a list \<Rightarrow> nat \<Rightarrow> 'a list \<Rightarrow> nat \<Rightarrow> 'a list" where
  "memcpy_at dst off src n = take off dst @ take n src @ drop (off + n) dst"

text \<open>
  \<open>_create_frame\<close> writes the outbound frame into \<open>buffer\<close> and returns its size, or
  returns 0 and leaves the buffer alone when \<open>count\<close> exceeds \<open>MAX_TX_DATA_SIZE\<close>.
\<close>

definition create_frame :: "u8 list \<Rightarrow> u8 \<Rightarrow> u16 \<Rightarrow> u8 list \<Rightarrow> int \<times> u8 list" where
  "create_frame buffer command count data =
    (if unat count > MAX_TX_DATA_SIZE then (0, buffer)
     else
       (let b = buffer[0 := MSG_START, 1 := command, 2 := ucast count,
                       3 := ucast (drop_bit 8 count)];
            b' = (if count > 0 then memcpy_at b 4 data (unat count) else b)
        in (int MSG_TX_HEADER_SIZE + int (unat count), b')))"


section \<open>Declarations taken from outside \<open>mcc172.c\<close>\<close>

text \<open>
  The result codes of \<open>daqhats.h\<close>. That header is not part of the sources at hand; only
  the names used by \<open>mcc172.c\<close> are declared, as an enumeration of distinct codes.
\<close>

datatype result =
    RESULT_SUCCESS
  | RESULT_BAD_PARAMETER
  | RESULT_BUSY
  | RESULT_TIMEOUT
  | RESULT_LOCK_TIMEOUT
  | RESULT_INVALID_DEVICE
  | RESULT_RESOURCE_UNAVAIL
  | RESULT_UNDEFINED

text \<open>
  The numeric constants that \<open>mcc172.c\<close> takes from \<open>daqhats.h\<close>. Their values are not
  in the sources at hand, so every function that uses one takes the header as a parameter
  \<open>h\<close>, and the theorems hold for every value of these constants.
\<close>

record daqhats_h =
  MAX_NUMBER_HATS :: nat
  HAT_ID_MCC_172 :: u16
  OPTS_NOSCALEDATA :: u32
  OPTS_NOCALIBRATEDATA :: u32
  OPTS_EXTTRIGGER :: u32
  OPTS_CONTINUOUS :: u32
  STATUS_HW_OVERRUN :: u16
  STATUS_BUFFER_OVERRUN :: u16
  STATUS_TRIGGERED :: u16
  STATUS_RUNNING :: u16
  TRIG_ACTIVE_LOW :: u8

text \<open>\<open>SPI_MODE_1\<close> of \<open>linux/spi/spidev.h\<close>.\<close>

definition spi_mode :: u8 where
  "spi_mode = 1"

section \<open>Constants of \<open>mcc172.c\<close>\<close>

definition MAX_CODE :: int where
  "MAX_CODE = 8388607"

definition MIN_CODE :: int where
  "MIN_CODE = - 8388608"

text \<open>
  The C type \<open>double\<close> is modelled by \<open>real\<close>: the arithmetic of the model is exact, and
  it agrees with the C arithmetic wherever the C results are exactly representable.
\<close>

definition RANGE_MIN :: real where
  "RANGE_MIN = - 5.0"

definition RANGE_MAX :: real where
  "RANGE_MAX = 5.0"

definition LSB_SIZE :: real where
  "LSB_SIZE = (RANGE_MAX - RANGE_MIN) / real_of_int (MAX_CODE + 1)"

definition VOLTAGE_MIN :: real where
  "VOLTAGE_MIN = RANGE_MIN"

definition VOLTAGE_MAX :: real where
  "VOLTAGE_MAX = RANGE_MAX - LSB_SIZE"

definition NUM_CHANNELS :: nat where
  "NUM_CHANNELS = 2"

definition MAX_SAMPLE_RATE :: real where
  "MAX_SAMPLE_RATE = 51200"

definition CMD_AINSCANSTART :: u8 where
  "CMD_AINSCANSTART = 0x11"
definition CMD_AINSCANSTATUS :: u8 where
  "CMD_AINSCANSTATUS = 0x12"
definition CMD_AINSCANDATA :: u8 where
  "CMD_AINSCANDATA = 0x13"
definition CMD_AINSCANSTOP :: u8 where
  "CMD_AINSCANSTOP = 0x14"
definition CMD_AINCLOCKCONFIG_R :: u8 where
  "CMD_AINCLOCKCONFIG_R = 0x15"
definition CMD_AINCLOCKCONFIG_W :: u8 where
  "CMD_AINCLOCKCONFIG_W = 0x16"
definition CMD_TRIGGERCONFIG_W :: u8 where
  "CMD_TRIGGERCONFIG_W = 0x18"
definition CMD_ID :: u8 where
  "CMD_ID = 0x41"
definition CMD_IEPECONFIG_R :: u8 where
  "CMD_IEPECONFIG_R = 0x43"
definition CMD_IEPECONFIG_W :: u8 where
  "CMD_IEPECONFIG_W = 0x44"

definition MSG_TX_INDEX_COMMAND :: nat where
  "MSG_TX_INDEX_COMMAND = 1"

definition MAX_SPI_TRANSFER :: nat where
  "MAX_SPI_TRANSFER = 4096"

definition SAMPLE_SIZE_BYTES :: nat where
  "SAMPLE_SIZE_BYTES = 3"

definition MAX_SAMPLES_READ :: nat where
  "MAX_SAMPLES_READ = (MAX_SPI_TRANSFER - MSG_RX_HEADER_SIZE) div SAMPLE_SIZE_BYTES"

definition FW_RES_SUCCESS :: u8 where
  "FW_RES_SUCCESS = 0x00"
definition FW_RES_BAD_PROTOCOL :: u8 where
  "FW_RES_BAD_PROTOCOL = 0x01"
definition FW_RES_BAD_PARAMETER :: u8 where
  "FW_RES_BAD_PARAMETER = 0x02"
definition FW_RES_BUSY :: u8 where
  "FW_RES_BUSY = 0x03"
definition FW_RES_NOT_READY :: u8 where
  "FW_RES_NOT_READY = 0x04"
definition FW_RES_TIMEOUT :: u8 where
  "FW_RES_TIMEOUT = 0x05"
definition FW_RES_OTHER_ERROR :: u8 where
  "FW_RES_OTHER_ERROR = 0x06"

definition MAX_SCAN_BUFFER_SIZE_SAMPLES :: nat where
  "MAX_SCAN_BUFFER_SIZE_SAMPLES = 16 * 1024 * 1024"

text \<open>The macro \<open>COUNT_NORMALIZE(x, c) = ((x / c) * c)\<close> on 32-bit unsigned operands.\<close>

definition COUNT_NORMALIZE :: "u32 \<Rightarrow> u32 \<Rightarrow> u32" where
  "COUNT_NORMALIZE x c = (x div c) * c"

section \<open>The data of the driver\<close>

record mcc172FactoryData =
  serial :: string
  cal_date :: string
  slopes :: "real list"
  offsets :: "real list"

text \<open>
  \<open>struct mcc172ScanThreadInfo\<close>. The fields \<open>slopes\<close> and \<open>offsets\<close> of the C struct
  are called \<open>info_slopes\<close> and \<open>info_offsets\<close> here, because the factory data has fields
  of the same names. The thread handle is a number, 0 when no thread was created.
\<close>

record mcc172ScanThreadInfo =
  handle :: nat
  scan_buffer :: "real list"
  buffer_size :: u32
  write_index :: u32
  read_index :: u32
  samples_transferred :: u32
  buffer_depth :: u32
  read_threshold :: u16
  options :: u16
  hw_overrun :: bool
  buffer_overrun :: bool
  thread_running :: bool
  stop_thread :: bool
  triggered :: bool
  scan_running :: bool
  channel_count :: u8
  channel_index :: u8
  channels :: "u8 list"
  info_slopes :: "real list"
  info_offsets :: "real list"

text \<open>\<open>struct mcc172Device\<close>; the pointer \<open>scan_info\<close> is \<open>None\<close> when it is \<open>NULL\<close>.\<close>

record mcc172Device =
  handle_count :: u16
  fw_version :: u16
  spi_fd :: int
  trigger_source :: u8
  trigger_mode :: u8
  factory_data :: mcc172FactoryData
  scan_info :: "mcc172ScanThreadInfo option"

text \<open>
  The two static variables \<open>_devices\<close> and \<open>_mcc172_lib_initialized\<close>. An entry of
  \<open>_devices\<close> is \<open>None\<close> when the pointer is \<open>NULL\<close>.
\<close>

record lib_state =
  devices :: "u8 \<Rightarrow> mcc172Device option"
  lib_initialized :: bool

definition check_addr :: "daqhats_h \<Rightarrow> lib_state \<Rightarrow> u8 \<Rightarrow> bool" where
  "check_addr h st address =
    (if unat address \<ge> MAX_NUMBER_HATS h \<or> \<not> lib_initialized st \<or>
        devices st address = None \<or> spi_fd (the (devices st address)) < 0
     then False else True)"


section \<open>The SPI transaction layer: \<open>_spi_transfer\<close>\<close>

text \<open>
  What the operating system and the board do during one call of \<open>_spi_transfer\<close>, in the
  order in which the function asks:
  \<^item> \<open>hw_alloc_ok\<close>: the three \<open>calloc\<close> calls succeed;
  \<^item> \<open>hw_lock_fd\<close>: the value of \<open>_obtain_lock()\<close>;
  \<^item> \<open>hw_rd_mode\<close>: the mode read by \<open>ioctl(SPI_IOC_RD_MODE)\<close>, \<open>None\<close> when it returns -1;
  \<^item> \<open>hw_wr_mode_ok\<close>: \<open>ioctl(SPI_IOC_WR_MODE)\<close> does not return -1;
  \<^item> \<open>hw_send_ok\<close>: the \<open>ioctl\<close> that sends the command returns at least 1;
  \<^item> \<open>hw_ready_polls\<close>: the one-byte reads of the first \<open>do\<close> loop that happen before
    the reply timeout expires, \<open>None\<close> for a read whose \<open>ioctl\<close> fails;
  \<^item> \<open>hw_body_reads\<close>: the same for the reads of the second \<open>do\<close> loop, each a block of
    \<open>read_amount\<close> bytes.
  The clock is not modelled: a loop that has used up its list has timed out.
\<close>

record spi_hw =
  hw_alloc_ok :: bool
  hw_lock_fd :: int
  hw_rd_mode :: "u8 option"
  hw_wr_mode_ok :: bool
  hw_send_ok :: bool
  hw_ready_polls :: "u8 option list"
  hw_body_reads :: "u8 list option list"

text \<open>
  The first loop: read one byte into \<open>rx_buffer[0]\<close> until it is not zero. The result is
  \<open>got_reply\<close> and the buffer.
\<close>

fun ready_loop :: "u8 option list \<Rightarrow> u8 list \<Rightarrow> bool \<times> u8 list" where
  "ready_loop [] rx_buffer = (False, rx_buffer)"
| "ready_loop (None # polls) rx_buffer = ready_loop polls rx_buffer"
| "ready_loop (Some b # polls) rx_buffer =
     (if rx_buffer[0 := b] ! 0 \<noteq> 0 then (True, rx_buffer[0 := b])
      else ready_loop polls (rx_buffer[0 := b]))"

text \<open>
  The second loop: read \<open>read_amount\<close> bytes to \<open>&rx_buffer[1]\<close> and parse
  \<open>read_amount + 1\<close> bytes, until a frame is found. The result is \<open>got_reply\<close>, the buffer
  and the values that the last \<open>_parse_buffer\<close> stored.
\<close>

fun reply_loop :: "u8 list option list \<Rightarrow> u8 list \<Rightarrow> u16 \<Rightarrow> parse_result \<Rightarrow>
    bool \<times> u8 list \<times> parse_result" where
  "reply_loop [] rx_buffer read_amount r = (False, rx_buffer, r)"
| "reply_loop (None # reads) rx_buffer read_amount r = reply_loop reads rx_buffer read_amount r"
| "reply_loop (Some bytes # reads) rx_buffer read_amount r =
     (let rx = memcpy_at rx_buffer 1 bytes (unat read_amount);
          r' = parse_buffer rx (read_amount + 1)
      in if found r' then (True, rx, r') else reply_loop reads rx read_amount r')"

text \<open>
  The function up to the test \<open>if (!got_reply)\<close>: either it has returned an error code,
  or a frame was found and the transmit buffer, the receive buffer and the parse result
  are handed on.
\<close>

definition spi_exchange :: "daqhats_h \<Rightarrow> lib_state \<Rightarrow> spi_hw \<Rightarrow> u8 \<Rightarrow> u8 \<Rightarrow> u8 list option \<Rightarrow>
    u16 \<Rightarrow> u8 list option \<Rightarrow> u16 \<Rightarrow> result + (u8 list \<times> u8 list \<times> parse_result)" where
  "spi_exchange h st hw address command tx_data tx_data_count rx_data rx_data_count =
    (if \<not> check_addr h st address \<or> (tx_data_count \<noteq> 0 \<and> tx_data = None) \<or>
        (rx_data_count \<noteq> 0 \<and> rx_data = None)
     then Inl RESULT_BAD_PARAMETER
     else
       (let tx_buffer_size = of_nat MSG_TX_HEADER_SIZE + tx_data_count :: u16;
            tx_buffer = replicate (unat tx_buffer_size) 0;
            rx_buffer_size = of_nat MSG_RX_HEADER_SIZE + rx_data_count + 5 :: u16;
            rx_buffer = replicate (unat rx_buffer_size) 0
        in if \<not> hw_alloc_ok hw then Inl RESULT_RESOURCE_UNAVAIL
           else
             (let tx_buffer' = snd (create_frame tx_buffer command tx_data_count
                                     (case tx_data of None \<Rightarrow> [] | Some d \<Rightarrow> d))
              in if hw_lock_fd hw < 0 then Inl RESULT_LOCK_TIMEOUT
                 else
                   (case hw_rd_mode hw of
                      None \<Rightarrow> Inl RESULT_UNDEFINED
                    | Some temp \<Rightarrow>
                        if temp \<noteq> spi_mode \<and> \<not> hw_wr_mode_ok hw then Inl RESULT_UNDEFINED
                        else if \<not> hw_send_ok hw then Inl RESULT_UNDEFINED
                        else
                          (let read_amount = rx_data_count + of_nat MSG_RX_HEADER_SIZE :: u16;
                               r0 = \<lparr> found = False, frame_start = 0, frame_length = 0,
                                      remaining = 0 \<rparr>
                           in case ready_loop (hw_ready_polls hw) rx_buffer of
                                (False, rx1) \<Rightarrow> Inl RESULT_TIMEOUT
                              | (True, rx1) \<Rightarrow>
                                  (case reply_loop (hw_body_reads hw) rx1 read_amount r0 of
                                     (False, rx2, r) \<Rightarrow> Inl RESULT_TIMEOUT
                                   | (True, rx2, r) \<Rightarrow> Inr (tx_buffer', rx2, r)))))))"

text \<open>
  The rest of the function: compare the command bytes and map the status byte of the
  reply. \<open>rx_data\<close> is the caller's receive buffer, \<open>None\<close> when the pointer is \<open>NULL\<close>.
\<close>

definition spi_decode :: "u8 list \<Rightarrow> u8 list \<Rightarrow> u16 \<Rightarrow> u8 list option \<Rightarrow> u16 \<Rightarrow>
    result \<times> u8 list option" where
  "spi_decode tx_buffer rx_buffer fs rx_data rx_data_count =
    (if rx_buffer ! (unat fs + MSG_RX_INDEX_COMMAND) = tx_buffer ! MSG_TX_INDEX_COMMAND then
       (let status = rx_buffer ! (unat fs + MSG_RX_INDEX_STATUS) in
        if status = FW_RES_SUCCESS then
          (RESULT_SUCCESS,
           if rx_data_count > 0
           then map_option (\<lambda>d. memcpy_at d 0 (drop (unat fs + MSG_RX_INDEX_DATA) rx_buffer)
                                  (unat rx_data_count)) rx_data
           else rx_data)
        else if status = FW_RES_BAD_PARAMETER then (RESULT_BAD_PARAMETER, rx_data)
        else if status = FW_RES_TIMEOUT then (RESULT_TIMEOUT, rx_data)
        else if status = FW_RES_BUSY then (RESULT_BUSY, rx_data)
        else (RESULT_UNDEFINED, rx_data))
     else (RESULT_BAD_PARAMETER, rx_data))"

definition spi_transfer :: "daqhats_h \<Rightarrow> lib_state \<Rightarrow> spi_hw \<Rightarrow> u8 \<Rightarrow> u8 \<Rightarrow> u8 list option \<Rightarrow>
    u16 \<Rightarrow> u8 list option \<Rightarrow> u16 \<Rightarrow> result \<times> u8 list option" where
  "spi_transfer h st hw address command tx_data tx_data_count rx_data rx_data_count =
    (case spi_exchange h st hw address command tx_data tx_data_count rx_data rx_data_count of
       Inl ret \<Rightarrow> (ret, rx_data)
     | Inr (tx_buffer, rx_buffer, r) \<Rightarrow>
         spi_decode tx_buffer rx_buffer (frame_start r) rx_data rx_data_count)"


section \<open>The producer: \<open>_a_in_read_scan_data\<close> and \<open>_scan_thread\<close>\<close>

text \<open>The bytes of a buffer that may be \<open>NULL\<close>.\<close>

definition bytes_of :: "u8 list option \<Rightarrow> u8 list" where
  "bytes_of d = (case d of None \<Rightarrow> [] | Some b \<Rightarrow> b)"

text \<open>
  The conversion of the three bytes at \<open>ptr\<close> into the \<open>int32_t value\<close>. The word is the
  bit pattern; \<open>sint\<close> reads it as the signed number that the C code converts to \<open>double\<close>.
\<close>

definition sample_value :: "u8 \<Rightarrow> u8 \<Rightarrow> u8 \<Rightarrow> u32" where
  "sample_value p0 p1 p2 =
    (if p0 AND 0x80 \<noteq> 0
     then ((0xFF000000 OR push_bit 16 (ucast p0)) OR push_bit 8 (ucast p1)) OR ucast p2
     else ((0x00000000 OR push_bit 16 (ucast p0)) OR push_bit 8 (ucast p1)) OR ucast p2)"

text \<open>The value stored in \<open>buffer[count]\<close> for the sample at \<open>ptr\<close>.\<close>

definition convert_sample :: "bool \<Rightarrow> bool \<Rightarrow> mcc172ScanThreadInfo \<Rightarrow> u8 list \<Rightarrow> real" where
  "convert_sample scaled calibrated info ptr =
    (let v = sample_value (ptr ! 0) (ptr ! 1) (ptr ! 2);
         b0 = real_of_int (sint v);
         b1 = (if calibrated
               then b0 * (info_slopes info ! unat (channel_index info))
                    + (info_offsets info ! unat (channel_index info))
               else b0);
         b2 = (if scaled then b1 * LSB_SIZE else b1)
     in b2)"

text \<open>The step of \<open>channel_index\<close> at the end of the loop body.\<close>

definition next_channel :: "mcc172ScanThreadInfo \<Rightarrow> mcc172ScanThreadInfo" where
  "next_channel info =
    (let i1 = info\<lparr> channel_index := channel_index info + 1 \<rparr>
     in if channel_index i1 \<ge> channel_count i1 then i1\<lparr> channel_index := 0 \<rparr> else i1)"

text \<open>
  The loop over the samples: the first argument is the number of samples still to
  convert, \<open>ptr\<close> advances by \<open>SAMPLE_SIZE_BYTES\<close>. The result is the list of the values
  stored in \<open>buffer[0]\<close>, \<open>buffer[1]\<close>, ... and the scan info after the loop.
\<close>

fun read_scan_loop :: "nat \<Rightarrow> u8 list \<Rightarrow> bool \<Rightarrow> bool \<Rightarrow> mcc172ScanThreadInfo \<Rightarrow>
    real list \<times> mcc172ScanThreadInfo" where
  "read_scan_loop 0 ptr scaled calibrated info = ([], info)"
| "read_scan_loop (Suc n) ptr scaled calibrated info =
     (let v = convert_sample scaled calibrated info ptr;
          rest = read_scan_loop n (drop SAMPLE_SIZE_BYTES ptr) scaled calibrated (next_channel info)
      in (v # fst rest, snd rest))"

text \<open>
  \<open>_a_in_read_scan_data\<close>. \<open>info\<close> is the scan info that \<open>dev->scan_info\<close> points to,
  \<open>buffer_given\<close> says that \<open>buffer\<close> is not \<open>NULL\<close>. The flag \<open>hw_alloc_ok\<close> of the
  hardware record also stands for the \<open>calloc\<close> of \<open>rx_data\<close>, which fails with the same
  result code. The converted samples are returned; the caller's buffer starts with them.
\<close>

definition a_in_read_scan_data :: "daqhats_h \<Rightarrow> lib_state \<Rightarrow> spi_hw \<Rightarrow> u8 \<Rightarrow> u16 \<Rightarrow> bool \<Rightarrow> bool \<Rightarrow>
    bool \<Rightarrow> mcc172ScanThreadInfo \<Rightarrow> result \<times> real list \<times> mcc172ScanThreadInfo" where
  "a_in_read_scan_data h st hw address sample_count scaled calibrated buffer_given info =
    (if \<not> check_addr h st address \<or> \<not> buffer_given then (RESULT_BAD_PARAMETER, [], info)
     else if \<not> hw_alloc_ok hw then (RESULT_RESOURCE_UNAVAIL, [], info)
     else
       (let rx_data = replicate (unat sample_count * SAMPLE_SIZE_BYTES) 0;
            reply = spi_transfer h st hw address CMD_AINSCANDATA
                      (Some [ucast sample_count, ucast (drop_bit 8 sample_count)]) 2
                      (Some rx_data) (sample_count * of_nat SAMPLE_SIZE_BYTES)
        in if fst reply \<noteq> RESULT_SUCCESS then (fst reply, [], info)
           else
             (let res = read_scan_loop (unat sample_count) (bytes_of (snd reply))
                          scaled calibrated info
              in (RESULT_SUCCESS, fst res, snd res))))"

text \<open>\<open>mcc172_a_in_scan_stop\<close>, which the thread calls when it is stopped early.\<close>

definition mcc172_a_in_scan_stop :: "daqhats_h \<Rightarrow> lib_state \<Rightarrow> spi_hw \<Rightarrow> u8 \<Rightarrow> result" where
  "mcc172_a_in_scan_stop h st hw address =
    (if \<not> check_addr h st address then RESULT_BAD_PARAMETER
     else fst (spi_transfer h st hw address CMD_AINSCANSTOP None 0 None 0))"

text \<open>
  The local variables of \<open>_scan_thread\<close> that live across loop iterations; \<open>is_done\<close>
  is the C variable \<open>done\<close>.
\<close>

record thread_locals =
  is_done :: bool
  sleep_us :: u32
  status_count :: u32

definition MIN_SLEEP_US :: u32 where
  "MIN_SLEEP_US = 200"

definition TRIG_SLEEP_US :: u32 where
  "TRIG_SLEEP_US = 1000"

text \<open>The hardware during the two transfers of one loop iteration.\<close>

record scan_step_hw =
  status_hw :: spi_hw
  data_hw :: spi_hw

text \<open>
  The choice of \<open>read_count\<close> from the status reply, before the clamp to the end of the
  ring buffer.
\<close>

definition choose_read_count :: "bool \<Rightarrow> u16 \<Rightarrow> u16 \<Rightarrow> u16 \<Rightarrow> u16" where
  "choose_read_count dev_running available_samples max_read_now threshold =
    (if \<not> dev_running \<or> available_samples \<ge> threshold \<or> available_samples > max_read_now
     then
       (let rc = available_samples;
            rc1 = (if max_read_now < rc then max_read_now else rc);
            rc2 = (if unat rc1 > MAX_SAMPLES_READ then of_nat MAX_SAMPLES_READ else rc1)
        in rc2)
     else 0)"

text \<open>
  The block \<open>if (read_count > 0) { ... }\<close>: clamp to the end of the ring, read and convert
  the samples, advance the ring, test for the overrun, adapt the sleep time. The result is
  the scan info, the locals and the clamped \<open>read_count\<close>.
\<close>

definition scan_thread_read :: "daqhats_h \<Rightarrow> lib_state \<Rightarrow> spi_hw \<Rightarrow> u8 \<Rightarrow> bool \<Rightarrow> bool \<Rightarrow> u16 \<Rightarrow>
    mcc172ScanThreadInfo \<Rightarrow> thread_locals \<Rightarrow> mcc172ScanThreadInfo \<times> thread_locals \<times> u16" where
  "scan_thread_read h st hw address scaled calibrated read_count0 info l =
    (let read_count = (if buffer_size info - write_index info < ucast read_count0
                       then ucast (buffer_size info - write_index info) else read_count0);
         rd = a_in_read_scan_data h st hw address read_count scaled calibrated True info;
         error = fst rd;
         samples = fst (snd rd);
         info_r = snd (snd rd);
         wr = (if error = RESULT_SUCCESS then
                 (let i1 = info_r\<lparr> scan_buffer := memcpy_at (scan_buffer info_r)
                                      (unat (write_index info_r)) samples (unat read_count),
                                   write_index := write_index info_r + ucast read_count \<rparr>;
                      i2 = (if write_index i1 \<ge> buffer_size i1 then i1\<lparr> write_index := 0 \<rparr>
                            else i1);
                      i3 = i2\<lparr> buffer_depth := buffer_depth i2 + ucast read_count \<rparr>;
                      over = (buffer_depth i3 > buffer_size i3);
                      i4 = (if over then i3\<lparr> buffer_overrun := True, scan_running := False \<rparr>
                            else i3);
                      i5 = i4\<lparr> samples_transferred := samples_transferred i4 + ucast read_count \<rparr>
                  in (i5, if over then l\<lparr> is_done := True \<rparr> else l))
               else (info_r, l));
         l1 = snd wr;
         l2 = (if status_count l1 > 4 then l1\<lparr> sleep_us := sleep_us l1 * 2 \<rparr>
               else if status_count l1 < 1 then
                 (let s2 = sleep_us l1 div 2
                  in l1\<lparr> sleep_us := (if s2 < MIN_SLEEP_US then MIN_SLEEP_US else s2) \<rparr>)
               else l1);
         l3 = l2\<lparr> status_count := 0 \<rparr>
     in (fst wr, l3, read_count))"

text \<open>One iteration of the \<open>while\<close> loop of \<open>_scan_thread\<close>, without the final \<open>usleep\<close>.\<close>

definition scan_thread_body :: "daqhats_h \<Rightarrow> lib_state \<Rightarrow> u8 \<Rightarrow> bool \<Rightarrow> bool \<Rightarrow> scan_step_hw \<Rightarrow>
    mcc172ScanThreadInfo \<times> thread_locals \<Rightarrow> mcc172ScanThreadInfo \<times> thread_locals" where
  "scan_thread_body h st address scaled calibrated hw s =
    (let info = fst s;
         l = snd s;
         reply = spi_transfer h st (status_hw hw) address CMD_AINSCANSTATUS None 0
                   (Some (replicate 5 0)) 5;
         rx_buffer = bytes_of (snd reply)
     in if fst reply \<noteq> RESULT_SUCCESS then (info, l)
        else
          (let available_samples = push_bit 8 (ucast (rx_buffer ! 2)) + ucast (rx_buffer ! 1) :: u16;
               max_read_now = push_bit 8 (ucast (rx_buffer ! 4)) + ucast (rx_buffer ! 3) :: u16;
               dev_running = (rx_buffer ! 0 AND 0x01 = 0x01);
               info1 = info\<lparr> hw_overrun := (rx_buffer ! 0 AND 0x02 = 0x02),
                              triggered := (rx_buffer ! 0 AND 0x04 = 0x04) \<rparr>;
               l1 = l\<lparr> status_count := status_count l + 1 \<rparr>
           in if hw_overrun info1 then (info1\<lparr> scan_running := False \<rparr>, l1\<lparr> is_done := True \<rparr>)
              else if \<not> triggered info1 then (info1, l1\<lparr> sleep_us := TRIG_SLEEP_US \<rparr>)
              else
                (let read_count0 = choose_read_count dev_running available_samples max_read_now
                                     (read_threshold info1);
                     rd = (if read_count0 > 0
                           then scan_thread_read h st (data_hw hw) address scaled calibrated
                                  read_count0 info1 l1
                           else (info1, l1, read_count0));
                     info2 = fst rd;
                     l2 = fst (snd rd);
                     read_count = snd (snd rd)
                 in if \<not> dev_running \<and> available_samples = read_count
                    then (info2\<lparr> scan_running := False \<rparr>, l2\<lparr> is_done := True \<rparr>)
                    else (info2, l2))))"

text \<open>
  The loop \<open>while (!info->stop_thread && !done)\<close>, one element of the list for each
  iteration. The loop may run forever; \<open>None\<close> says that the list is used up and the loop
  has not ended.
\<close>

fun scan_thread_loop :: "daqhats_h \<Rightarrow> lib_state \<Rightarrow> u8 \<Rightarrow> bool \<Rightarrow> bool \<Rightarrow> scan_step_hw list \<Rightarrow>
    mcc172ScanThreadInfo \<times> thread_locals \<Rightarrow> (mcc172ScanThreadInfo \<times> thread_locals) option" where
  "scan_thread_loop h st address scaled calibrated [] s =
     (if \<not> stop_thread (fst s) \<and> \<not> is_done (snd s) then None else Some s)"
| "scan_thread_loop h st address scaled calibrated (hw # hws) s =
     (if \<not> stop_thread (fst s) \<and> \<not> is_done (snd s)
      then scan_thread_loop h st address scaled calibrated hws
             (scan_thread_body h st address scaled calibrated hw s)
      else Some s)"

text \<open>
  \<open>_scan_thread\<close> for the scan info \<open>info\<close> of the device (\<open>None\<close> when the pointer is
  \<open>NULL\<close>). The result is the scan info when the thread returns.
\<close>

definition scan_thread :: "daqhats_h \<Rightarrow> lib_state \<Rightarrow> u8 \<Rightarrow> scan_step_hw list \<Rightarrow> spi_hw \<Rightarrow>
    mcc172ScanThreadInfo option \<Rightarrow> mcc172ScanThreadInfo option option" where
  "scan_thread h st address hws stop_hw info_ptr =
    (case info_ptr of
       None \<Rightarrow> Some None
     | Some info \<Rightarrow>
         if \<not> check_addr h st address then Some (Some info)
         else
           (let info0 = info\<lparr> thread_running := True, hw_overrun := False \<rparr>;
                scaled = (if ucast (options info0) AND OPTS_NOSCALEDATA h \<noteq> 0 then False else True);
                calibrated = (if ucast (options info0) AND OPTS_NOCALIBRATEDATA h \<noteq> 0 then False
                              else True);
                l0 = \<lparr> is_done = False, sleep_us = MIN_SLEEP_US, status_count = 0 \<rparr>
            in case scan_thread_loop h st address scaled calibrated hws (info0, l0) of
                 None \<Rightarrow> None
               | Some s \<Rightarrow>
                   (let stopped = (if scan_running (fst s)
                                   then mcc172_a_in_scan_stop h st stop_hw address
                                   else RESULT_SUCCESS)
                    in Some (Some ((fst s)\<lparr> thread_running := False \<rparr>)))))"


section \<open>Configuration functions\<close>

text \<open>Assignment to \<open>_devices[address]\<close>.\<close>

definition set_device :: "lib_state \<Rightarrow> u8 \<Rightarrow> mcc172Device option \<Rightarrow> lib_state" where
  "set_device st address d = st\<lparr> devices := (devices st)(address := d) \<rparr>"

text \<open>
  The functions below return the result code and the library state after the call.
  Each \<open>spi_hw\<close> argument is the hardware during one call of \<open>_spi_transfer\<close>.
\<close>

definition mcc172_calibration_coefficient_write :: "daqhats_h \<Rightarrow> lib_state \<Rightarrow> u8 \<Rightarrow> u8 \<Rightarrow>
    real \<Rightarrow> real \<Rightarrow> result \<times> lib_state" where
  "mcc172_calibration_coefficient_write h st address channel slope offset =
    (if \<not> check_addr h st address \<or> unat channel \<ge> NUM_CHANNELS then (RESULT_BAD_PARAMETER, st)
     else
       (let dev = the (devices st address) in
        if scan_info dev \<noteq> None then (RESULT_BUSY, st)
        else
          (let fd = factory_data dev;
               fd' = fd\<lparr> slopes := (slopes fd)[unat channel := slope],
                         offsets := (offsets fd)[unat channel := offset] \<rparr>
           in (RESULT_SUCCESS, set_device st address (Some (dev\<lparr> factory_data := fd' \<rparr>))))))"

definition mcc172_IEPE_config_write :: "daqhats_h \<Rightarrow> lib_state \<Rightarrow> spi_hw \<Rightarrow> spi_hw \<Rightarrow> u8 \<Rightarrow> u8 \<Rightarrow>
    u8 \<Rightarrow> result \<times> lib_state" where
  "mcc172_IEPE_config_write h st hw_read hw_write address channel config =
    (if \<not> check_addr h st address \<or> unat channel \<ge> NUM_CHANNELS \<or> config > 1
     then (RESULT_BAD_PARAMETER, st)
     else if scan_info (the (devices st address)) \<noteq> None then (RESULT_BUSY, st)
     else
       (let rd = spi_transfer h st hw_read address CMD_IEPECONFIG_R None 0 (Some [0]) 1 in
        if fst rd \<noteq> RESULT_SUCCESS then (fst rd, st)
        else
          (let buffer = bytes_of (snd rd) ! 0;
               buffer' = (if config = 0 then buffer AND NOT (push_bit (unat channel) 1)
                          else buffer OR push_bit (unat channel) 1)
           in (fst (spi_transfer h st hw_write address CMD_IEPECONFIG_W (Some [buffer']) 1 None 0),
               st))))"

text \<open>
  In \<open>mcc172_a_in_clock_config_write\<close> the division by a rate of \<open>+0.0\<close> gives
  \<open>+infinity\<close> in C, which the clamp turns into 256; the model says so explicitly.
\<close>

definition mcc172_a_in_clock_config_write :: "daqhats_h \<Rightarrow> lib_state \<Rightarrow> spi_hw \<Rightarrow> u8 \<Rightarrow> u8 \<Rightarrow>
    real \<Rightarrow> result \<times> lib_state" where
  "mcc172_a_in_clock_config_write h st hw address clock_source sample_rate_per_channel =
    (if \<not> check_addr h st address \<or> clock_source > 1 then (RESULT_BAD_PARAMETER, st)
     else if scan_info (the (devices st address)) \<noteq> None then (RESULT_BUSY, st)
     else
       (let divisor0 = MAX_SAMPLE_RATE / sample_rate_per_channel + 0.5;
            divisor = (if sample_rate_per_channel = 0 then 256.0
                       else if divisor0 < 1.0 then 1.0
                       else if divisor0 > 256.0 then 256.0 else divisor0);
            buffer = [clock_source, of_nat (nat \<lfloor>divisor - 1\<rfloor>)]
        in (fst (spi_transfer h st hw address CMD_AINCLOCKCONFIG_W (Some buffer) 2 None 0), st)))"

text \<open>
  \<open>mcc172_a_in_clock_config_read\<close>: the result code and the three values stored through
  the pointers (all of them non-\<open>NULL\<close> in the call from \<open>mcc172_a_in_scan_start\<close>).
\<close>

definition mcc172_a_in_clock_config_read :: "daqhats_h \<Rightarrow> lib_state \<Rightarrow> spi_hw \<Rightarrow> u8 \<Rightarrow>
    result \<times> u8 \<times> real \<times> u8" where
  "mcc172_a_in_clock_config_read h st hw address =
    (if \<not> check_addr h st address then (RESULT_BAD_PARAMETER, 0, 0, 0)
     else
       (let rd = spi_transfer h st hw address CMD_AINCLOCKCONFIG_R None 0 (Some [0, 0]) 2;
            buffer = bytes_of (snd rd)
        in if fst rd \<noteq> RESULT_SUCCESS then (fst rd, 0, 0, 0)
           else (RESULT_SUCCESS, buffer ! 0 AND 0x03,
                 MAX_SAMPLE_RATE / (real (unat (buffer ! 1)) + 1),
                 drop_bit 7 (buffer ! 0) AND 0x01)))"

definition mcc172_trigger_config :: "daqhats_h \<Rightarrow> lib_state \<Rightarrow> spi_hw \<Rightarrow> u8 \<Rightarrow> u8 \<Rightarrow> u8 \<Rightarrow>
    result \<times> lib_state" where
  "mcc172_trigger_config h st hw address source mode =
    (if \<not> check_addr h st address \<or> source > 2 \<or> mode > TRIG_ACTIVE_LOW h
     then (RESULT_BAD_PARAMETER, st)
     else if scan_info (the (devices st address)) \<noteq> None then (RESULT_BUSY, st)
     else
       (let buffer = push_bit 2 mode OR source;
            dev = the (devices st address);
            st' = set_device st address
                    (Some (dev\<lparr> trigger_source := source, trigger_mode := mode \<rparr>))
        in (fst (spi_transfer h st' hw address CMD_TRIGGERCONFIG_W (Some [buffer]) 1 None 0),
            st')))"


section \<open>Starting a scan: \<open>mcc172_a_in_scan_start\<close>\<close>

text \<open>
  What the system does during one call of \<open>mcc172_a_in_scan_start\<close>:
  \<^item> \<open>se_info_alloc_ok\<close>, \<open>se_buffer_alloc_ok\<close>: the two \<open>calloc\<close> calls succeed;
  \<^item> \<open>se_clock_hw\<close>: the hardware during the successive calls of
    \<open>mcc172_a_in_clock_config_read\<close> in the loop that waits for the clock to be in sync;
  \<^item> \<open>se_attr_init_ok\<close>: \<open>pthread_attr_init\<close> returns 0;
  \<^item> \<open>se_start_hw\<close>: the hardware during the transfer of \<open>CMD_AINSCANSTART\<close>;
  \<^item> \<open>se_thread_create\<close>: the handle of the thread made by \<open>pthread_create\<close>, \<open>None\<close> when
    it fails;
  \<^item> \<open>se_stop_hw\<close>: the hardware during the \<open>mcc172_a_in_scan_stop\<close> of that failure path.
\<close>

record start_env =
  se_info_alloc_ok :: bool
  se_clock_hw :: "spi_hw list"
  se_buffer_alloc_ok :: bool
  se_attr_init_ok :: bool
  se_start_hw :: spi_hw
  se_thread_create :: "nat option"
  se_stop_hw :: spi_hw

text \<open>The scan info as \<open>calloc\<close> returns it: every field zero.\<close>

definition zero_info :: mcc172ScanThreadInfo where
  "zero_info = \<lparr> handle = 0, scan_buffer = [], buffer_size = 0, write_index = 0, read_index = 0,
     samples_transferred = 0, buffer_depth = 0, read_threshold = 0, options = 0,
     hw_overrun = False, buffer_overrun = False, thread_running = False, stop_thread = False,
     triggered = False, scan_running = False, channel_count = 0, channel_index = 0,
     channels = replicate NUM_CHANNELS 0, info_slopes = replicate NUM_CHANNELS 0,
     info_offsets = replicate NUM_CHANNELS 0 \<rparr>"

text \<open>
  The body of the loop \<open>for (channel = 0; channel < NUM_CHANNELS; channel++)\<close>; the state
  of the loop is the scan info and \<open>num_channels\<close>.
\<close>

definition add_channel :: "u8 \<Rightarrow> mcc172FactoryData \<Rightarrow> mcc172ScanThreadInfo \<times> nat \<Rightarrow> nat \<Rightarrow>
    mcc172ScanThreadInfo \<times> nat" where
  "add_channel channel_mask fd s channel =
    (let info = fst s; num_channels = snd s in
     if channel_mask AND push_bit channel 1 \<noteq> 0
     then (info\<lparr> channels := (channels info)[num_channels := of_nat channel],
                  info_slopes := (info_slopes info)[num_channels := slopes fd ! channel],
                  info_offsets := (info_offsets info)[num_channels := offsets fd ! channel] \<rparr>,
           num_channels + 1)
     else (info, num_channels))"

text \<open>
  The loop \<open>do { ... } while (synced == 0)\<close>. It has no bound: \<open>None\<close> says that the list
  of hardware behaviours is used up and the clock is still not in sync. Otherwise the
  result is the error code of a failed read or the sample rate.
\<close>

fun wait_sync :: "daqhats_h \<Rightarrow> lib_state \<Rightarrow> u8 \<Rightarrow> spi_hw list \<Rightarrow> (result + real) option" where
  "wait_sync h st address [] = None"
| "wait_sync h st address (hw # hws) =
     (case mcc172_a_in_clock_config_read h st hw address of
        (res, clock_source, sample_rate_per_channel, synced) \<Rightarrow>
          if res \<noteq> RESULT_SUCCESS then Some (Inl res)
          else if synced = 0 then wait_sync h st address hws
          else Some (Inr sample_rate_per_channel))"

text \<open>The computation under the comment \<open>Calculate the buffer size\<close>, in \<open>uint32_t\<close>.\<close>

definition scan_buffer_size :: "daqhats_h \<Rightarrow> u32 \<Rightarrow> real \<Rightarrow> u32 \<Rightarrow> u8 \<Rightarrow> u32" where
  "scan_buffer_size h opts sample_rate_per_channel samples_per_channel num_channels =
    (let bs = (if opts AND OPTS_CONTINUOUS h \<noteq> 0 then
                 (let b0 = (if sample_rate_per_channel \<le> 1024.0 then 1000
                            else if sample_rate_per_channel \<le> 10240.0 then 10000
                            else 100000)
                  in if b0 < samples_per_channel then samples_per_channel else b0)
               else samples_per_channel)
     in bs * ucast num_channels)"

text \<open>The computation of \<open>read_threshold\<close>.\<close>

definition scan_read_threshold :: "real \<Rightarrow> u8 \<Rightarrow> u16" where
  "scan_read_threshold sample_rate_per_channel count =
    (let t0 = of_nat (nat \<lfloor>sample_rate_per_channel / 10\<rfloor>) :: u16;
         t1 = (if unat t0 > MAX_SAMPLES_READ then of_nat MAX_SAMPLES_READ else t0);
         t2 = ucast (COUNT_NORMALIZE (ucast t1) (ucast count)) :: u16
     in if t2 = 0 then ucast count else t2)"

text \<open>
  \<open>mcc172_a_in_scan_start\<close>; the parameter \<open>options\<close> is called \<open>opts\<close>, because
  \<open>options\<close> is a field of the scan info. The new thread has not run yet when the function returns.
  The ring buffer is a list of \<open>buffer_size\<close> zeros (the size in bytes is taken not to
  overflow \<open>size_t\<close>).
\<close>

definition mcc172_a_in_scan_start :: "daqhats_h \<Rightarrow> start_env \<Rightarrow> lib_state \<Rightarrow> u8 \<Rightarrow> u8 \<Rightarrow> u32 \<Rightarrow>
    u32 \<Rightarrow> (result \<times> lib_state) option" where
  "mcc172_a_in_scan_start h env st address channel_mask samples_per_channel opts =
    (if \<not> check_addr h st address \<or> channel_mask = 0 \<or> unat channel_mask \<ge> 2 ^ NUM_CHANNELS \<or>
        (samples_per_channel = 0 \<and> opts AND OPTS_CONTINUOUS h = 0)
     then Some (RESULT_BAD_PARAMETER, st)
     else
       (let dev = the (devices st address) in
        if scan_info dev \<noteq> None then Some (RESULT_BUSY, st)
        else if \<not> se_info_alloc_ok env then Some (RESULT_RESOURCE_UNAVAIL, st)
        else
          (let info0 = zero_info\<lparr> options := ucast opts \<rparr>;
               chans = foldl (add_channel channel_mask (factory_data dev)) (info0, 0)
                         [0 ..< NUM_CHANNELS];
               num_channels = of_nat (snd chans) :: u8;
               info1 = (fst chans)\<lparr> channel_count := num_channels, channel_index := 0 \<rparr>;
               released = set_device st address (Some (dev\<lparr> scan_info := None \<rparr>));
               st1 = set_device st address (Some (dev\<lparr> scan_info := Some info1 \<rparr>))
           in case wait_sync h st1 address (se_clock_hw env) of
                None \<Rightarrow> None
              | Some (Inl res) \<Rightarrow> Some (res, released)
              | Some (Inr sample_rate_per_channel) \<Rightarrow>
                  (let info2 = info1\<lparr> buffer_size := scan_buffer_size h opts
                                  sample_rate_per_channel samples_per_channel num_channels \<rparr>
                   in if \<not> se_buffer_alloc_ok env then Some (RESULT_RESOURCE_UNAVAIL, released)
                      else
                        (let info3 = info2\<lparr> scan_buffer := replicate (unat (buffer_size info2)) 0,
                                            read_threshold := scan_read_threshold
                                              sample_rate_per_channel (channel_count info2) \<rparr>
                         in if \<not> se_attr_init_ok env then Some (RESULT_RESOURCE_UNAVAIL, released)
                            else
                              (let channel_mask' = (if opts AND OPTS_EXTTRIGGER h \<noteq> 0
                                                    then channel_mask OR 0x04 else channel_mask);
                                   scan_count = (if opts AND OPTS_CONTINUOUS h \<noteq> 0 then 0
                                                 else samples_per_channel);
                                   buffer = [ucast scan_count, ucast (drop_bit 8 scan_count),
                                             ucast (drop_bit 16 scan_count),
                                             ucast (drop_bit 24 scan_count), channel_mask'];
                                   st3 = set_device st address (Some (dev\<lparr> scan_info := Some info3 \<rparr>));
                                   res = fst (spi_transfer h st3 (se_start_hw env) address
                                                CMD_AINSCANSTART (Some buffer) 5 None 0)
                               in if res \<noteq> RESULT_SUCCESS then Some (res, released)
                                  else
                                    (case se_thread_create env of
                                       None \<Rightarrow>
                                         (let stopped = mcc172_a_in_scan_stop h st3
                                                          (se_stop_hw env) address
                                          in Some (RESULT_RESOURCE_UNAVAIL, released))
                                     | Some hdl \<Rightarrow>
                                         Some (RESULT_SUCCESS,
                                               set_device st address
                                                 (Some (dev\<lparr> scan_info := Some (info3\<lparr> handle := hdl,
                                                          scan_running := True \<rparr>) \<rparr>))))))))))"


section \<open>Opening a device: \<open>mcc172_open\<close> and \<open>mcc172_open_for_update\<close>\<close>

definition mcc172_lib_init :: "lib_state \<Rightarrow> lib_state" where
  "mcc172_lib_init st =
    (if \<not> lib_initialized st then \<lparr> devices = (\<lambda>i. None), lib_initialized = True \<rparr> else st)"

definition set_defaults :: mcc172FactoryData where
  "set_defaults = \<lparr> serial = ''00000000'', cal_date = ''1970-01-01'',
     slopes = replicate NUM_CHANNELS 1.0, offsets = replicate NUM_CHANNELS 0.0 \<rparr>"

text \<open>
  What the system does during one call of \<open>mcc172_open\<close>:
  \<^item> \<open>oe_hat_info\<close>: the result of \<open>_hat_info\<close>, with \<open>oe_hat_id\<close> and \<open>oe_custom_size\<close> the
    values it stores in \<open>info.id\<close> and \<open>custom_size\<close>;
  \<^item> \<open>oe_spi_fd\<close>: the value of \<open>open(spi_device, O_RDWR)\<close>;
  \<^item> \<open>oe_factory\<close>: the factory data when \<open>cJSON_Parse\<close> and \<open>_parse_factory_data\<close> both
    succeed on the EEPROM contents, \<open>None\<close> otherwise;
  \<^item> \<open>oe_id_hw\<close>: the hardware during the transfer of \<open>CMD_ID\<close> in the attempt of the given
    number.
\<close>

record open_env =
  oe_hat_info :: result
  oe_hat_id :: u16
  oe_custom_size :: u16
  oe_spi_fd :: int
  oe_factory :: "mcc172FactoryData option"
  oe_id_hw :: "nat \<Rightarrow> spi_hw"

text \<open>The device record as \<open>calloc\<close> returns it.\<close>

definition zero_device :: mcc172Device where
  "zero_device = \<lparr> handle_count = 0, fw_version = 0, spi_fd = 0, trigger_source = 0,
     trigger_mode = 0,
     factory_data = \<lparr> serial = [], cal_date = [], slopes = replicate NUM_CHANNELS 0,
       offsets = replicate NUM_CHANNELS 0 \<rparr>,
     scan_info = None \<rparr>"

text \<open>
  The first part of \<open>mcc172_open\<close>, which \<open>mcc172_open_for_update\<close> repeats: make the
  device record or count one more handle. \<open>Inl\<close> is an early return.
\<close>

definition open_device :: "daqhats_h \<Rightarrow> open_env \<Rightarrow> lib_state \<Rightarrow> u8 \<Rightarrow>
    (result \<times> lib_state) + lib_state" where
  "open_device h env st address =
    (case devices st address of
       None \<Rightarrow>
         if oe_hat_info env = RESULT_SUCCESS \<and> oe_hat_id env \<noteq> HAT_ID_MCC_172 h
         then Inl (RESULT_INVALID_DEVICE, st)
         else
           (let custom_size = (if oe_hat_info env = RESULT_SUCCESS then oe_custom_size env else 0);
                dev = zero_device\<lparr> scan_info := None, handle_count := 1, spi_fd := oe_spi_fd env \<rparr>
            in if spi_fd dev < 0 then Inl (RESULT_RESOURCE_UNAVAIL, set_device st address None)
               else
                 (let fd = (if custom_size > 0
                            then (case oe_factory env of None \<Rightarrow> set_defaults | Some d \<Rightarrow> d)
                            else set_defaults)
                  in Inr (set_device st address (Some (dev\<lparr> factory_data := fd \<rparr>)))))
     | Some dev \<Rightarrow>
         Inr (set_device st address (Some (dev\<lparr> handle_count := handle_count dev + 1 \<rparr>))))"

text \<open>
  The loop \<open>do { ... } while ((ret != RESULT_SUCCESS) && (attempts < 2))\<close> and the two
  statements after it. The two 16-bit words of \<open>id_data\<close> are read from the four reply
  bytes in little-endian order, as on the target.
\<close>

function id_loop :: "daqhats_h \<Rightarrow> open_env \<Rightarrow> lib_state \<Rightarrow> u8 \<Rightarrow> nat \<Rightarrow> result \<times> lib_state" where
  "id_loop h env st address attempts =
    (let reply = spi_transfer h st (oe_id_hw env attempts) address CMD_ID None 0
                   (Some (replicate 6 0)) 4;
         ret = fst reply;
         id_bytes = bytes_of (snd reply);
         id_data0 = ucast (id_bytes ! 0) OR push_bit 8 (ucast (id_bytes ! 1)) :: u16;
         id_data1 = ucast (id_bytes ! 2) OR push_bit 8 (ucast (id_bytes ! 3)) :: u16
     in if ret = RESULT_SUCCESS then
          (if id_data0 = HAT_ID_MCC_172 h
           then (RESULT_SUCCESS,
                 set_device st address
                   (map_option (\<lambda>dev. dev\<lparr> fw_version := id_data1 \<rparr>) (devices st address)))
           else (RESULT_INVALID_DEVICE, set_device st address None))
        else if ret \<noteq> RESULT_SUCCESS \<and> attempts + 1 < 2
        then id_loop h env st address (attempts + 1)
        else (RESULT_SUCCESS, st))"
  by pat_completeness auto
termination
  by (relation "measure (\<lambda>(h, env, st, address, attempts). 2 - attempts)") auto

declare id_loop.simps [simp del]

definition mcc172_open :: "daqhats_h \<Rightarrow> open_env \<Rightarrow> lib_state \<Rightarrow> u8 \<Rightarrow> result \<times> lib_state" where
  "mcc172_open h env st0 address =
    (let st = mcc172_lib_init st0 in
     if unat address \<ge> MAX_NUMBER_HATS h then (RESULT_BAD_PARAMETER, st)
     else
       (case open_device h env st address of
          Inl early \<Rightarrow> early
        | Inr st1 \<Rightarrow> id_loop h env st1 address 0))"

text \<open>
  \<open>mcc172_open_for_update\<close>. The second reading of the EEPROM is taken to give what the
  first one gave.
\<close>

definition mcc172_open_for_update :: "daqhats_h \<Rightarrow> open_env \<Rightarrow> lib_state \<Rightarrow> u8 \<Rightarrow>
    result \<times> lib_state" where
  "mcc172_open_for_update h env st0 address =
    (let st = mcc172_lib_init st0 in
     if unat address \<ge> MAX_NUMBER_HATS h then (RESULT_BAD_PARAMETER, st)
     else
       (let opened = mcc172_open h env st address in
        if fst opened = RESULT_SUCCESS then opened
        else
          (case open_device h env (snd opened) address of
             Inl early \<Rightarrow> early
           | Inr st1 \<Rightarrow> (RESULT_SUCCESS, st1))))"


section \<open>The consumer: \<open>mcc172_a_in_scan_read\<close>\<close>

text \<open>
  The consumer runs beside the producer thread. The model is sequential: one \<open>tick\<close> for
  each iteration of the \<open>do\<close> loop says what the producer did to the shared scan info
  while the consumer slept in \<open>usleep(100)\<close>, and what \<open>_difftime_us\<close> returned afterwards.
\<close>

record tick =
  producer :: "mcc172ScanThreadInfo \<Rightarrow> mcc172ScanThreadInfo"
  elapsed_us :: u32

text \<open>The local variables of \<open>mcc172_a_in_scan_read\<close>, with the scan info and the caller's buffer.\<close>

record read_vars =
  rv_info :: mcc172ScanThreadInfo
  rv_buffer :: "real list option"
  samples_to_read :: u32
  samples_read :: u32
  stat :: u16
  error :: bool
  timed_out :: bool

text \<open>
  The block \<open>if (info->buffer_depth >= info->channel_count) { ... }\<close>: copy out of the ring,
  in two pieces when the read wraps. A \<open>NULL\<close> buffer is \<open>None\<close> and receives nothing.
\<close>

definition read_copy :: "read_vars \<Rightarrow> read_vars" where
  "read_copy v =
    (let info = rv_info v in
     if buffer_depth info \<ge> ucast (channel_count info) then
       (let current_read0 = (if buffer_depth info < samples_to_read v then buffer_depth info
                             else samples_to_read v);
            current_read = COUNT_NORMALIZE current_read0 (ucast (channel_count info));
            max_read = buffer_size info - read_index info;
            v1 = (if max_read < current_read then
                    (let b1 = map_option (\<lambda>b. memcpy_at b (unat (samples_read v))
                                (drop (unat (read_index info)) (scan_buffer info)) (unat max_read))
                                (rv_buffer v);
                         sr1 = samples_read v + max_read;
                         b2 = map_option (\<lambda>b. memcpy_at b (unat sr1) (scan_buffer info)
                                (unat (current_read - max_read))) b1;
                         sr2 = sr1 + (current_read - max_read)
                     in v\<lparr> rv_buffer := b2, samples_read := sr2,
                           rv_info := info\<lparr> read_index := current_read - max_read \<rparr> \<rparr>)
                  else
                    (let b1 = map_option (\<lambda>b. memcpy_at b (unat (samples_read v))
                                (drop (unat (read_index info)) (scan_buffer info))
                                (unat current_read)) (rv_buffer v);
                         i1 = info\<lparr> read_index := read_index info + current_read \<rparr>;
                         i2 = (if read_index i1 \<ge> buffer_size i1 then i1\<lparr> read_index := 0 \<rparr>
                               else i1)
                     in v\<lparr> rv_buffer := b1, samples_read := samples_read v + current_read,
                           rv_info := i2 \<rparr>))
        in v1\<lparr> samples_to_read := samples_to_read v1 - current_read,
                rv_info := (rv_info v1)\<lparr> buffer_depth := buffer_depth (rv_info v1) - current_read \<rparr> \<rparr>)
     else v)"

text \<open>The body of the \<open>do\<close> loop.\<close>

definition read_iteration :: "daqhats_h \<Rightarrow> bool \<Rightarrow> u32 \<Rightarrow> tick \<Rightarrow> read_vars \<Rightarrow> read_vars" where
  "read_iteration h no_timeout timeout_us t v =
    (let v1 = read_copy v;
         v2 = v1\<lparr> rv_info := producer t (rv_info v1) \<rparr>;
         v3 = (if \<not> no_timeout then v2\<lparr> timed_out := (elapsed_us t \<ge> timeout_us) \<rparr> else v2);
         v4 = (if hw_overrun (rv_info v3)
               then v3\<lparr> stat := stat v3 OR STATUS_HW_OVERRUN h, error := True \<rparr> else v3);
         v5 = (if buffer_overrun (rv_info v4)
               then v4\<lparr> stat := stat v4 OR STATUS_BUFFER_OVERRUN h, error := True \<rparr> else v4)
     in v5)"

text \<open>The condition of the \<open>do\<close> loop.\<close>

definition read_continue :: "read_vars \<Rightarrow> bool" where
  "read_continue v \<longleftrightarrow>
    samples_to_read v > 0 \<and> \<not> error v \<and>
    (if thread_running (rv_info v) = False then buffer_depth (rv_info v) > 0 else True) \<and>
    \<not> timed_out v"

text \<open>
  The \<open>do\<close> loop. With a negative timeout it has no bound; \<open>None\<close> says that the list of
  ticks is used up and the loop has not ended.
\<close>

fun read_loop :: "daqhats_h \<Rightarrow> bool \<Rightarrow> u32 \<Rightarrow> tick list \<Rightarrow> read_vars \<Rightarrow> read_vars option" where
  "read_loop h no_timeout timeout_us [] v = None"
| "read_loop h no_timeout timeout_us (t # ts) v =
     (let v' = read_iteration h no_timeout timeout_us t v
      in if read_continue v' then read_loop h no_timeout timeout_us ts v' else Some v')"

text \<open>
  What \<open>mcc172_a_in_scan_read\<close> returns and stores: the result code, the value stored in
  \<open>*status\<close>, the value stored in \<open>*samples_read_per_channel\<close> (\<open>None\<close> when nothing is
  stored), the caller's buffer and the scan info afterwards.
\<close>

record scan_read_out =
  ro_result :: result
  ro_status :: "u16 option"
  ro_samples_read_per_channel :: "u32 option"
  ro_buffer :: "real list option"
  ro_info :: "mcc172ScanThreadInfo option"

text \<open>
  \<open>mcc172_a_in_scan_read\<close>. \<open>samples_per_channel\<close> is the bit pattern of the \<open>int32_t\<close>
  argument, read as a signed number by \<open>sint\<close>. \<open>status_given\<close> and \<open>count_given\<close> say that
  the pointers \<open>status\<close> and \<open>samples_read_per_channel\<close> are not \<open>NULL\<close>.
\<close>

definition mcc172_a_in_scan_read :: "daqhats_h \<Rightarrow> tick list \<Rightarrow> lib_state \<Rightarrow> u8 \<Rightarrow> bool \<Rightarrow> u32 \<Rightarrow>
    real \<Rightarrow> real list option \<Rightarrow> u32 \<Rightarrow> bool \<Rightarrow> scan_read_out option" where
  "mcc172_a_in_scan_read h ticks st address status_given samples_per_channel timeout buffer
      buffer_size_samples count_given =
    (if \<not> check_addr h st address \<or> \<not> status_given \<or>
        (sint samples_per_channel > 0 \<and> (buffer = None \<or> buffer_size_samples = 0))
     then Some \<lparr> ro_result = RESULT_BAD_PARAMETER, ro_status = None,
                 ro_samples_read_per_channel = None, ro_buffer = buffer,
                 ro_info = (case devices st address of None \<Rightarrow> None | Some d \<Rightarrow> scan_info d) \<rparr>
     else
       (let no_timeout = (timeout < 0.0);
            timeout_us = (if timeout < 0.0 then 0 else of_nat (nat \<lfloor>timeout * 1000000\<rfloor>)) :: u32
        in case scan_info (the (devices st address)) of
             None \<Rightarrow>
               Some \<lparr> ro_result = RESULT_RESOURCE_UNAVAIL, ro_status = Some 0,
                      ro_samples_read_per_channel = (if count_given then Some 0 else None),
                      ro_buffer = buffer, ro_info = None \<rparr>
           | Some info \<Rightarrow>
               (let to_read0 = (if samples_per_channel = - 1 then buffer_depth info
                                else samples_per_channel * ucast (channel_count info));
                    to_read = (if buffer_size_samples < to_read0
                               then COUNT_NORMALIZE buffer_size_samples (ucast (channel_count info))
                               else to_read0);
                    v0 = \<lparr> rv_info = info, rv_buffer = buffer, samples_to_read = to_read,
                           samples_read = 0, stat = 0, error = False, timed_out = False \<rparr>;
                    looped = (if to_read \<noteq> 0 then read_loop h no_timeout timeout_us ticks v0
                              else
                                (let s1 = (if hw_overrun info then STATUS_HW_OVERRUN h else 0);
                                     s2 = (if buffer_overrun info then s1 OR STATUS_BUFFER_OVERRUN h
                                           else s1)
                                 in Some (v0\<lparr> stat := s2 \<rparr>)))
                in case looped of
                     None \<Rightarrow> None
                   | Some v \<Rightarrow>
                       (let count_out = (if count_given
                                         then Some (if to_read \<noteq> 0
                                                    then samples_read v div ucast (channel_count (rv_info v))
                                                    else 0)
                                         else None);
                            s3 = (if triggered (rv_info v) then stat v OR STATUS_TRIGGERED h
                                  else stat v);
                            s4 = (if scan_running (rv_info v) then s3 OR STATUS_RUNNING h else s3);
                            ret = (if \<not> no_timeout \<and> timeout > 0.0 \<and> timed_out v \<and>
                                      samples_to_read v > 0
                                   then RESULT_TIMEOUT else RESULT_SUCCESS)
                        in Some \<lparr> ro_result = ret, ro_status = Some s4,
                                   ro_samples_read_per_channel = count_out,
                                   ro_buffer = rv_buffer v, ro_info = Some (rv_info v) \<rparr>))))"

section \<open>Definitions used in the statements and proofs\<close>

subsection \<open>The framing codec\<close>

text \<open>
  The count field of the inbound frame that starts at offset \<open>fs\<close>: the bytes at
  \<open>MSG_RX_INDEX_COUNT_LOW\<close> and \<open>MSG_RX_INDEX_COUNT_HIGH\<close>, little-endian, as a number.
\<close>

definition frame_count_field :: "u8 list \<Rightarrow> nat \<Rightarrow> nat" where
  "frame_count_field buffer fs =
     unat (buffer ! (fs + MSG_RX_INDEX_COUNT_LOW)) +
     256 * unat (buffer ! (fs + MSG_RX_INDEX_COUNT_HIGH))"

text \<open>The same field as the parser builds it in \<open>data_count\<close>.\<close>

definition count_field :: "u8 list \<Rightarrow> nat \<Rightarrow> u16" where
  "count_field ptr fs = ucast (ptr ! (fs + 3)) OR push_bit 8 (ucast (ptr ! (fs + 4)))"

text \<open>
  The invariant of the loop of \<open>_parse_buffer\<close>, at the loop test with the index \<open>index\<close>:
  what is known of the local variables in each parse state.
\<close>

definition parse_inv :: "u8 list \<Rightarrow> u16 \<Rightarrow> parse_vars \<Rightarrow> bool" where
  "parse_inv ptr index v \<longleftrightarrow>
    (if found_frame v then
       unat (l_frame_start v) + unat (l_frame_length v) \<le> unat index \<and>
       ptr ! unat (l_frame_start v) = MSG_START \<and>
       unat (l_frame_length v) = 5 + unat (count_field ptr (unat (l_frame_start v)))
     else
       0 \<le> parse_state v \<and> parse_state v \<le> 5 \<and>
       (1 \<le> parse_state v \<longrightarrow>
          ptr ! unat (l_frame_start v) = MSG_START \<and>
          (parse_state v \<le> 4 \<longrightarrow> unat index = unat (l_frame_start v) + nat (parse_state v)) \<and>
          (parse_state v \<le> 4 \<longrightarrow> data_index v = 0) \<and>
          (parse_state v = 4 \<longrightarrow> data_count v = ucast (ptr ! (unat (l_frame_start v) + 3))) \<and>
          (parse_state v = 5 \<longrightarrow>
             data_count v = count_field ptr (unat (l_frame_start v)) \<and>
             data_index v < data_count v \<and>
             unat index = unat (l_frame_start v) + 5 + unat (data_index v))))"

text \<open>What the loop of \<open>_parse_buffer\<close> guarantees when it has ended.\<close>

definition parse_post :: "u8 list \<Rightarrow> u16 \<Rightarrow> parse_vars \<Rightarrow> bool" where
  "parse_post ptr len v \<longleftrightarrow>
     (found_frame v \<longrightarrow>
       unat (l_frame_start v) + unat (l_frame_length v) \<le> unat len \<and>
       ptr ! unat (l_frame_start v) = MSG_START \<and>
       unat (l_frame_length v) = 5 + unat (count_field ptr (unat (l_frame_start v))))"

subsection \<open>Samples\<close>

text \<open>The two's-complement reading of a 24-bit value \<open>0 \<le> v < 2 ^ 24\<close>.\<close>

definition sign_extend24 :: "int \<Rightarrow> int" where
  "sign_extend24 v = (if v \<ge> 2 ^ 23 then v - 2 ^ 24 else v)"

subsection \<open>Concrete inputs\<close>

text \<open>
  The values that the header \<open>daqhats.h\<close> of the library gives to its constants. They
  are used for the concrete inputs only.
\<close>

definition daqhats_h_values :: daqhats_h where
  "daqhats_h_values = \<lparr> MAX_NUMBER_HATS = 8, HAT_ID_MCC_172 = 0x0145,
     OPTS_NOSCALEDATA = 0x0001, OPTS_NOCALIBRATEDATA = 0x0002, OPTS_EXTTRIGGER = 0x0008,
     OPTS_CONTINUOUS = 0x0010, STATUS_HW_OVERRUN = 0x0001, STATUS_BUFFER_OVERRUN = 0x0002,
     STATUS_TRIGGERED = 0x0004, STATUS_RUNNING = 0x0008, TRIG_ACTIVE_LOW = 3 \<rparr>"

text \<open>An open device at address 0 with default factory data and no scan.\<close>

definition idle_device :: mcc172Device where
  "idle_device = zero_device\<lparr> handle_count := 1, spi_fd := 3, factory_data := set_defaults \<rparr>"

definition idle_state :: lib_state where
  "idle_state = \<lparr> devices = (\<lambda>i. None)(0 := Some idle_device), lib_initialized = True \<rparr>"

text \<open>
  A board that answers at once: every system call succeeds, the first poll reads the
  byte \<open>ready\<close> and the first block read delivers \<open>body\<close>.
\<close>

definition hw_reply :: "u8 \<Rightarrow> u8 list \<Rightarrow> spi_hw" where
  "hw_reply ready body = \<lparr> hw_alloc_ok = True, hw_lock_fd = 5, hw_rd_mode = Some 1,
     hw_wr_mode_ok = True, hw_send_ok = True, hw_ready_polls = [Some ready],
     hw_body_reads = [Some body] \<rparr>"

text \<open>A board that never becomes ready: every poll before the timeout reads 0.\<close>

definition hw_silent :: spi_hw where
  "hw_silent = \<lparr> hw_alloc_ok = True, hw_lock_fd = 5, hw_rd_mode = Some 1,
     hw_wr_mode_ok = True, hw_send_ok = True, hw_ready_polls = [Some 0, Some 0],
     hw_body_reads = [] \<rparr>"

text \<open>
  The same device while a scan on both channels is active: the scan info has a ring of
  2000 samples, and the producer thread runs.
\<close>

definition scanning_info :: mcc172ScanThreadInfo where
  "scanning_info = zero_info\<lparr> handle := 1, scan_buffer := replicate 2000 0, buffer_size := 2000,
     read_threshold := 10, thread_running := True, triggered := True, scan_running := True,
     channel_count := 2, channels := [0, 1], info_slopes := [1, 1], info_offsets := [0, 0] \<rparr>"

definition scanning_state :: lib_state where
  "scanning_state = \<lparr> devices = (\<lambda>i. None)(0 := Some (idle_device\<lparr> scan_info := Some scanning_info \<rparr>)),
     lib_initialized = True \<rparr>"

text \<open>
  A start of a scan in which every system call succeeds: the clock is in sync at the
  first read, at the divisor 1 (51200 S/s), and the board accepts the start command.
\<close>

definition env_ok :: start_env where
  "env_ok = \<lparr> se_info_alloc_ok = True,
     se_clock_hw = [hw_reply 0xDB [0x15, 0x00, 0x02, 0x00, 0x80, 0x00, 0x00]],
     se_buffer_alloc_ok = True, se_attr_init_ok = True,
     se_start_hw = hw_reply 0xDB [0x11, 0x00, 0x00, 0x00, 0x00],
     se_thread_create = Some 1, se_stop_hw = hw_silent \<rparr>"

text \<open>
  The scan info after the start of a finite scan of 20000000 samples on channel 0 of the
  idle device, at 51200 S/s.
\<close>

definition started_info :: mcc172ScanThreadInfo where
  "started_info = zero_info\<lparr> handle := 1, scan_buffer := replicate 20000000 0,
     buffer_size := 20000000, read_threshold := 1363, scan_running := True, channel_count := 1,
     channels := [0, 0], info_slopes := [1, 0], info_offsets := [0, 0] \<rparr>"

text \<open>
  The library before the first call, and an \<open>mcc172_open\<close> in which the EEPROM names an
  MCC 172 without calibration data, the SPI device opens, and the board never answers the
  \<open>CMD_ID\<close> command.
\<close>

definition fresh_state :: lib_state where
  "fresh_state = \<lparr> devices = (\<lambda>i. None), lib_initialized = False \<rparr>"

definition env_silent :: open_env where
  "env_silent = \<lparr> oe_hat_info = RESULT_SUCCESS, oe_hat_id = 0x0145, oe_custom_size = 0,
     oe_spi_fd = 3, oe_factory = None, oe_id_hw = (\<lambda>attempt. hw_silent) \<rparr>"

text \<open>
  The scanning device with three unread samples in the ring (an odd number, on a scan of
  two channels), and a schedule of two loop iterations of the consumer in which the
  producer adds nothing: the clock reads 100 us in the first and 1 s in the second.
\<close>

definition odd_info :: mcc172ScanThreadInfo where
  "odd_info = scanning_info\<lparr> scan_buffer := [1, 2, 3] @ replicate 1997 0, write_index := 3,
     samples_transferred := 3, buffer_depth := 3 \<rparr>"

definition odd_state :: lib_state where
  "odd_state = \<lparr> devices = (\<lambda>i. None)(0 := Some (idle_device\<lparr> scan_info := Some odd_info \<rparr>)),
     lib_initialized = True \<rparr>"

definition idle_ticks :: "tick list" where
  "idle_ticks = [\<lparr> producer = id, elapsed_us = 100 \<rparr>, \<lparr> producer = id, elapsed_us = 1000000 \<rparr>]"

subsection \<open>The producer\<close>

text \<open>
  The path of a loop iteration of \<open>_scan_thread\<close> that writes \<open>read_count\<close> samples into the
  ring: the status transfer succeeds and reports no hardware overrun and a triggered
  scan, the chosen read count is positive, \<open>read_count\<close> is that count clamped to the end
  of the ring, and \<open>_a_in_read_scan_data\<close> succeeds.
\<close>

definition iteration_writes :: "daqhats_h \<Rightarrow> lib_state \<Rightarrow> u8 \<Rightarrow> bool \<Rightarrow> bool \<Rightarrow> scan_step_hw \<Rightarrow>
    mcc172ScanThreadInfo \<Rightarrow> u16 \<Rightarrow> bool" where
  "iteration_writes h st address scaled calibrated hw info read_count \<longleftrightarrow>
    (let reply = spi_transfer h st (status_hw hw) address CMD_AINSCANSTATUS None 0
                   (Some (replicate 5 0)) 5;
         rx_buffer = bytes_of (snd reply);
         available_samples = push_bit 8 (ucast (rx_buffer ! 2)) + ucast (rx_buffer ! 1) :: u16;
         max_read_now = push_bit 8 (ucast (rx_buffer ! 4)) + ucast (rx_buffer ! 3) :: u16;
         info1 = info\<lparr> hw_overrun := False, triggered := True \<rparr>;
         read_count0 = choose_read_count (rx_buffer ! 0 AND 0x01 = 0x01) available_samples
                         max_read_now (read_threshold info)
     in fst reply = RESULT_SUCCESS \<and> rx_buffer ! 0 AND 0x02 \<noteq> 0x02 \<and>
        rx_buffer ! 0 AND 0x04 = 0x04 \<and> read_count0 > 0 \<and>
        read_count = (if buffer_size info - write_index info < ucast read_count0
                      then ucast (buffer_size info - write_index info) else read_count0) \<and>
        fst (a_in_read_scan_data h st (data_hw hw) address read_count scaled calibrated True
               info1) = RESULT_SUCCESS)"

text \<open>
  The scanning device with a full ring, and a loop iteration in which the board reports a
  running, triggered scan with two samples available and delivers them.
\<close>

definition full_info :: mcc172ScanThreadInfo where
  "full_info = scanning_info\<lparr> samples_transferred := 2000, buffer_depth := 2000,
     read_threshold := 2 \<rparr>"

definition full_state :: lib_state where
  "full_state = \<lparr> devices = (\<lambda>i. None)(0 := Some (idle_device\<lparr> scan_info := Some full_info \<rparr>)),
     lib_initialized = True \<rparr>"

definition step_hw :: scan_step_hw where
  "step_hw = \<lparr> status_hw = hw_reply 0xDB [0x12, 0x00, 0x05, 0x00, 0x05, 0x02, 0x00, 0x02, 0x00, 0x00],
     data_hw = hw_reply 0xDB [0x13, 0x00, 0x06, 0x00, 0x00, 0x00, 0x01, 0x00, 0x00, 0x02, 0x00] \<rparr>"

definition first_locals :: thread_locals where
  "first_locals = \<lparr> is_done = False, sleep_us = MIN_SLEEP_US, status_count = 0 \<rparr>"

section \<open>Properties of the framing codec\<close>

subsection \<open>Word arithmetic\<close>

lemma unat_index_Suc:
  fixes index len :: u16
  assumes "index < len"
  shows "unat (index + 1) = Suc (unat index)"
proof -
  from assms have below: "unat index < unat len"
    by (simp add: word_less_nat_alt)
  have "unat len < 2 ^ 16"
    using unsigned_less [of len] by simp
  with below show ?thesis
    by (simp add: unat_word_ariths)
qed

lemma nat_or_push8:
  fixes a b :: nat
  assumes "a < 256"
  shows "a OR push_bit 8 b = a + 256 * b"
proof -
  from assms have "take_bit 8 a = a" by (simp add: take_bit_nat_eq_self_iff)
  moreover have "take_bit 8 a AND push_bit 8 b = 0"
    by (rule bit_eqI) (simp add: bit_simps)
  ultimately have "a AND push_bit 8 b = 0"
    by simp
  then have "a + push_bit 8 b = a OR push_bit 8 b"
    by (rule disjunctive_add_eq_or)
  then show ?thesis by (simp add: push_bit_eq_mult)
qed

lemma unat_or_push8:
  fixes a b :: "8 word"
  shows "unat ((ucast a :: 16 word) OR push_bit 8 (ucast b)) = unat a + 256 * unat b"
proof -
  have a: "unat a < 256" using unsigned_less [of a] by simp
  have b: "unat b < 256" using unsigned_less [of b] by simp
  have ub: "unat (ucast b :: 16 word) = unat b"
    using b by (simp add: unsigned_ucast_eq take_bit_nat_eq_self_iff)
  have "unat (push_bit 8 (ucast b :: 16 word)) = push_bit 8 (unat b)"
    using b ub by (simp add: push_bit_eq_mult unat_word_ariths)
  moreover have "unat (ucast a :: 16 word) = unat a"
    using a by (simp add: unsigned_ucast_eq take_bit_nat_eq_self_iff)
  ultimately show ?thesis
    using a by (simp add: unsigned_or_eq nat_or_push8)
qed

lemma count_bytes_join:
  fixes n :: u16
  shows "(ucast (ucast n :: u8) :: u16) OR push_bit 8 (ucast (ucast (drop_bit 8 n) :: u8)) = n"
  by (rule bit_eqI) (auto simp: bit_simps)

subsection \<open>The loop invariant of the parser\<close>

lemma parse_inv_init: "parse_inv ptr 0 parse_init"
  by (simp add: parse_inv_def parse_init_def)

lemma parse_inv_step:
  assumes inv: "parse_inv ptr index v" and lt: "index < len" and nf: "\<not> found_frame v"
  shows "parse_inv ptr (index + 1) (parse_body ptr index v)"
proof -
  note suc = unat_index_Suc [OF lt]
  from lt have ilen: "unat index < unat len" by (simp add: word_less_nat_alt)
  have len16: "unat len < 65536" using unsigned_less [of len] by simp
  from inv nf have st: "0 \<le> parse_state v" "parse_state v \<le> 5"
    by (simp_all add: parse_inv_def)
  then consider "parse_state v = 0" | "parse_state v = 1" | "parse_state v = 2"
    | "parse_state v = 3" | "parse_state v = 4" | "parse_state v = 5"
    by linarith
  then show ?thesis
  proof cases
    case 1
    then show ?thesis using inv nf suc
      by (simp add: parse_inv_def parse_body_def)
  next
    case 2
    then show ?thesis using inv nf suc
      by (simp add: parse_inv_def parse_body_def)
  next
    case 3
    then show ?thesis using inv nf suc
      by (simp add: parse_inv_def parse_body_def)
  next
    case 4
    then show ?thesis using inv nf suc
      by (simp add: parse_inv_def parse_body_def)
  next
    case 5
    then show ?thesis using inv nf suc
      by (simp add: parse_inv_def parse_body_def Let_def count_field_def MSG_RX_HEADER_SIZE_def word_gt_0)
  next
    case 6
    with inv nf have dc: "data_count v = count_field ptr (unat (l_frame_start v))"
      and di: "data_index v < data_count v"
      and ix: "unat index = unat (l_frame_start v) + 5 + unat (data_index v)"
      and sb: "ptr ! unat (l_frame_start v) = MSG_START"
      by (auto simp: parse_inv_def)
    have di_suc: "unat (data_index v + 1) = Suc (unat (data_index v))"
      using di by (rule unat_index_Suc)
    show ?thesis
    proof (cases "data_count v \<le> data_index v + 1")
      case True
      then have "unat (data_count v) \<le> Suc (unat (data_index v))"
        using di_suc by (simp add: word_le_nat_alt)
      moreover from di have "unat (data_index v) < unat (data_count v)"
        by (simp add: word_less_nat_alt)
      ultimately have eq: "unat (data_count v) = Suc (unat (data_index v))" by simp
      with ix ilen len16 have "unat (data_count v) + 5 < 65536" by simp
      then have "unat (data_count v + 5) = unat (data_count v) + 5"
        by (simp add: unat_word_ariths)
      with True 6 nf dc sb ix eq suc show ?thesis
        by (simp add: parse_inv_def parse_body_def Let_def MSG_RX_HEADER_SIZE_def)
    next
      case False
      then have "data_index v + 1 < data_count v" by simp
      with False 6 nf dc sb ix di_suc suc show ?thesis
        by (simp add: parse_inv_def parse_body_def Let_def)
    qed
  qed
qed

lemma parse_loop_post:
  "parse_inv ptr index v \<Longrightarrow> index \<le> len \<Longrightarrow> parse_post ptr len (parse_loop ptr len index v)"
proof (induction ptr len index v rule: parse_loop.induct)
  case (1 ptr len index v)
  show ?case
  proof (cases "index < len \<and> \<not> found_frame v")
    case True
    then have lt: "index < len" and nf: "\<not> found_frame v" by simp_all
    have "parse_inv ptr (index + 1) (parse_body ptr index v)"
      using "1.prems"(1) lt nf by (rule parse_inv_step)
    moreover have "index + 1 \<le> len"
      using lt by (rule inc_le)
    ultimately have "parse_post ptr len (parse_loop ptr len (index + 1) (parse_body ptr index v))"
      using "1.IH" True by simp
    then show ?thesis
      using True by (subst parse_loop.simps) simp
  next
    case False
    then have eq: "parse_loop ptr len index v = v"
      by (subst parse_loop.simps) auto
    from "1.prems" have "unat index \<le> unat len" by (simp add: word_le_nat_alt)
    with "1.prems"(1) show ?thesis
      unfolding eq by (auto simp: parse_post_def parse_inv_def split: if_splits)
  qed
qed

lemma unat_count_field:
  "unat (count_field ptr fs) = frame_count_field ptr fs"
  by (simp add: count_field_def frame_count_field_def unat_or_push8 MSG_RX_INDEX_COUNT_LOW_def MSG_RX_INDEX_COUNT_HIGH_def)

text \<open>
  Claim C10. Whenever \<open>_parse_buffer\<close> returns \<open>found = true\<close> on a buffer that holds at
  least \<open>length\<close> bytes, the reported frame lies inside the scanned region
  (\<open>frame_start + frame_length \<le> length\<close>), the byte at \<open>frame_start\<close> is the start byte
  \<open>0xDB\<close>, and \<open>frame_length\<close> is the header size 5 plus the count field decoded from the
  frame.
\<close>

theorem parse_buffer_frame_in_bounds:
  assumes "unat len \<le> length buffer" and "found (parse_buffer buffer len)"
  shows "unat (frame_start (parse_buffer buffer len)) + unat (frame_length (parse_buffer buffer len)) \<le> unat len \<and>
         unat (frame_start (parse_buffer buffer len)) < length buffer \<and>
         buffer ! unat (frame_start (parse_buffer buffer len)) = MSG_START \<and>
         unat (frame_length (parse_buffer buffer len)) =
           MSG_RX_HEADER_SIZE + frame_count_field buffer (unat (frame_start (parse_buffer buffer len)))"
proof -
  let ?v = "parse_loop buffer len 0 parse_init"
  have post: "parse_post buffer len ?v"
    by (rule parse_loop_post [OF parse_inv_init]) simp
  have sel: "found (parse_buffer buffer len) = found_frame ?v"
    "frame_start (parse_buffer buffer len) = l_frame_start ?v"
    "frame_length (parse_buffer buffer len) = l_frame_length ?v"
    by (simp_all add: parse_buffer_def Let_def)
  from assms(2) have "found_frame ?v" by (simp only: sel)
  with post have a: "unat (l_frame_start ?v) + unat (l_frame_length ?v) \<le> unat len"
    and b: "buffer ! unat (l_frame_start ?v) = MSG_START"
    and c: "unat (l_frame_length ?v) = 5 + unat (count_field buffer (unat (l_frame_start ?v)))"
    unfolding parse_post_def by blast+
  from a c assms(1) have d: "unat (l_frame_start ?v) < length buffer" by linarith
  show ?thesis
    unfolding sel using a b c d by (simp only: unat_count_field MSG_RX_HEADER_SIZE_def simp_thms)
qed

theorem parse_buffer_frame_in_bounds_witness:
  "unat (9 :: u16) \<le> length [1, 0xDB, 0x41, 0, 2, 0, 7, 8, 9 :: u8] \<and>
   found (parse_buffer [1, 0xDB, 0x41, 0, 2, 0, 7, 8, 9] 9) \<and>
   unat (frame_start (parse_buffer [1, 0xDB, 0x41, 0, 2, 0, 7, 8, 9] 9)) +
     unat (frame_length (parse_buffer [1, 0xDB, 0x41, 0, 2, 0, 7, 8, 9] 9)) \<le> unat (9 :: u16) \<and>
   [1, 0xDB, 0x41, 0, 2, 0, 7, 8, 9 :: u8] ! unat (frame_start (parse_buffer [1, 0xDB, 0x41, 0, 2, 0, 7, 8, 9] 9)) = MSG_START"
proof -
  have l: "unat (9 :: u16) \<le> length [1, 0xDB, 0x41, 0, 2, 0, 7, 8, 9 :: u8]" by simp
  have f: "found (parse_buffer [1, 0xDB, 0x41, 0, 2, 0, 7, 8, 9] 9)"
    by (simp add: parse_buffer_def parse_loop.simps parse_body_def parse_init_def MSG_START_def
        MSG_RX_HEADER_SIZE_def Let_def)
  from parse_buffer_frame_in_bounds [OF l f] l f show ?thesis by simp
qed

subsection \<open>Scanning an inbound frame\<close>

lemma parse_loop_step:
  "index < len \<Longrightarrow> \<not> found_frame v \<Longrightarrow>
   parse_loop ptr len index v = parse_loop ptr len (index + 1) (parse_body ptr index v)"
  by (subst parse_loop.simps) simp

lemma parse_loop_stop:
  "found_frame v \<Longrightarrow> parse_loop ptr len index v = v"
  by (subst parse_loop.simps) simp

lemma parse_loop_data:
  "k = unat (data_count v) - unat (data_index v) \<Longrightarrow> parse_state v = 5 \<Longrightarrow>
   \<not> found_frame v \<Longrightarrow> data_index v < data_count v \<Longrightarrow>
   unat index + k \<le> unat len \<Longrightarrow>
   parse_loop ptr len index v =
     v\<lparr> l_remaining := l_remaining v - (data_count v - data_index v),
        data_index := data_count v, parse_state := 6, found_frame := True,
        l_frame_length := data_count v + 5 \<rparr>"
proof (induction k arbitrary: index v)
  case 0
  then show ?case by (simp add: word_less_nat_alt)
next
  case (Suc k)
  from Suc.prems have di: "unat (data_index v) < unat (data_count v)"
    by (simp add: word_less_nat_alt)
  from Suc.prems have "unat index < unat len" by simp
  then have lt: "index < len" by (simp add: word_less_nat_alt)
  have isuc: "unat (index + 1) = Suc (unat index)" using lt by (rule unat_index_Suc)
  have dsuc: "unat (data_index v + 1) = Suc (unat (data_index v))"
    using Suc.prems(4) by (rule unat_index_Suc)
  have step: "parse_loop ptr len index v = parse_loop ptr len (index + 1) (parse_body ptr index v)"
    using lt Suc.prems(3) by (rule parse_loop_step)
  show ?case
  proof (cases "data_count v \<le> data_index v + 1")
    case True
    then have "unat (data_count v) = Suc (unat (data_index v))"
      using di dsuc by (simp add: word_le_nat_alt)
    then have "data_count v = data_index v + 1"
      using dsuc by (metis word_unat_eq_iff)
    then have "parse_body ptr index v =
       v\<lparr> l_remaining := l_remaining v - (data_count v - data_index v),
        data_index := data_count v, parse_state := 6, found_frame := True,
        l_frame_length := data_count v + 5 \<rparr>"
      using Suc.prems(2) by (simp add: parse_body_def Let_def MSG_RX_HEADER_SIZE_def)
    then show ?thesis
      unfolding step by (simp add: parse_loop_stop)
  next
    case False
    then have lt': "data_index v + 1 < data_count v" by simp
    let ?v = "parse_body ptr index v"
    have body: "?v = v\<lparr> l_remaining := l_remaining v - 1, data_index := data_index v + 1 \<rparr>"
      using Suc.prems(2) False by (simp add: parse_body_def Let_def)
    have "parse_loop ptr len (index + 1) ?v =
       ?v\<lparr> l_remaining := l_remaining ?v - (data_count ?v - data_index ?v),
        data_index := data_count ?v, parse_state := 6, found_frame := True,
        l_frame_length := data_count ?v + 5 \<rparr>"
    proof (rule Suc.IH)
      show "k = unat (data_count ?v) - unat (data_index ?v)"
        using Suc.prems(1) dsuc by (simp add: body)
      show "parse_state ?v = 5" using Suc.prems(2) by (simp add: body)
      show "\<not> found_frame ?v" using Suc.prems(3) by (simp add: body)
      show "data_index ?v < data_count ?v" using lt' by (simp add: body)
      show "unat (index + 1) + k \<le> unat len" using Suc.prems(5) isuc by simp
    qed
    then show ?thesis
      unfolding step by (simp add: body)
  qed
qed

lemma parse_rx_frame:
  fixes n :: u16
  assumes n: "unat n = length P" and len: "5 + length P \<le> unat len"
  shows "parse_buffer (MSG_START # C # S # ucast n # ucast (drop_bit 8 n) # P @ noise) len =
     \<lparr> found = True, frame_start = 0, frame_length = n + 5, remaining = 0 \<rparr>"
proof -
  let ?ptr = "MSG_START # C # S # ucast n # ucast (drop_bit 8 n) # P @ noise"
  from len have l: "5 \<le> unat len" by simp
  then have lts: "0 < len" "1 < len" "2 < len" "3 < len" "4 < len"
    by (simp_all add: word_less_nat_alt)
  let ?v1 = "parse_init\<lparr> parse_state := 1 \<rparr>"
  let ?v4 = "parse_init\<lparr> parse_state := 4, data_count := ucast (ucast n :: u8) \<rparr>"
  have "parse_loop ?ptr len 0 parse_init = parse_loop ?ptr len 1 ?v1"
    using lts(1) by (subst parse_loop_step) (simp_all add: parse_body_def parse_init_def)
  also have "\<dots> = parse_loop ?ptr len 2 (parse_init\<lparr> parse_state := 2 \<rparr>)"
    using lts(2) by (subst parse_loop_step) (simp_all add: parse_body_def parse_init_def)
  also have "\<dots> = parse_loop ?ptr len 3 (parse_init\<lparr> parse_state := 3 \<rparr>)"
    using lts(3) by (subst parse_loop_step) (simp_all add: parse_body_def parse_init_def)
  also have "\<dots> = parse_loop ?ptr len 4 ?v4"
    using lts(4) by (subst parse_loop_step) (simp_all add: parse_body_def parse_init_def)
  finally have hdr: "parse_loop ?ptr len 0 parse_init = parse_loop ?ptr len 4 ?v4" .
  have step4: "parse_loop ?ptr len 4 ?v4 = parse_loop ?ptr len 5 (parse_body ?ptr 4 ?v4)"
    using lts(5) by (subst parse_loop_step) (simp_all add: parse_init_def)
  show ?thesis
  proof (cases "n = 0")
    case True
    then have "parse_body ?ptr 4 ?v4 = parse_init\<lparr> parse_state := 6, found_frame := True,
        l_frame_length := 5 \<rparr>"
      by (simp add: parse_body_def parse_init_def MSG_RX_HEADER_SIZE_def)
    then have "parse_loop ?ptr len 0 parse_init = parse_init\<lparr> parse_state := 6,
        found_frame := True, l_frame_length := 5 \<rparr>"
      unfolding hdr step4 by (simp add: parse_loop_stop)
    then show ?thesis
      unfolding parse_buffer_def using True by (simp add: parse_init_def)
  next
    case False
    let ?v5 = "parse_init\<lparr> parse_state := 5, data_count := n, l_remaining := n \<rparr>"
    have b: "parse_body ?ptr 4 ?v4 = ?v5"
      using False by (simp add: parse_body_def parse_init_def count_bytes_join Let_def)
    have "parse_loop ?ptr len 5 ?v5 =
      ?v5\<lparr> l_remaining := l_remaining ?v5 - (data_count ?v5 - data_index ?v5),
        data_index := data_count ?v5, parse_state := 6, found_frame := True,
        l_frame_length := data_count ?v5 + 5 \<rparr>"
    proof (rule parse_loop_data [OF refl])
      show "parse_state ?v5 = 5" by simp
      show "\<not> found_frame ?v5" by (simp add: parse_init_def)
      show "data_index ?v5 < data_count ?v5"
        using False by (simp add: parse_init_def word_gt_0)
      show "unat (5 :: u16) + (unat (data_count ?v5) - unat (data_index ?v5)) \<le> unat len"
        using len n by (simp add: parse_init_def)
    qed
    then have "parse_loop ?ptr len 0 parse_init =
      ?v5\<lparr> l_remaining := l_remaining ?v5 - (data_count ?v5 - data_index ?v5),
        data_index := data_count ?v5, parse_state := 6, found_frame := True,
        l_frame_length := data_count ?v5 + 5 \<rparr>"
      unfolding hdr step4 b .
    then show ?thesis
      unfolding parse_buffer_def by (simp add: parse_init_def)
  qed
qed

lemma create_frame_bytes:
  assumes "length P = unat count" and "unat count \<le> 256" and "length buffer = 4 + unat count"
  shows "create_frame buffer C count P =
     (4 + int (unat count), [MSG_START, C, ucast count, ucast (drop_bit 8 count)] @ P)"
proof -
  from assms(3) have "4 \<le> length buffer" by simp
  then obtain b0 b1 b2 b3 rest where buf: "buffer = b0 # b1 # b2 # b3 # rest"
    by (auto simp: numeral_eq_Suc Suc_le_length_iff)
  with assms(3) have rest: "length rest = unat count" by simp
  show ?thesis
  proof (cases "count = 0")
    case True
    with assms rest show ?thesis
      by (simp add: create_frame_def buf MAX_TX_DATA_SIZE_def MSG_TX_HEADER_SIZE_def)
  next
    case False
    then have "0 < count" by (simp add: word_gt_0)
    with assms rest show ?thesis
      by (simp add: create_frame_def buf MAX_TX_DATA_SIZE_def MSG_TX_HEADER_SIZE_def
        memcpy_at_def Let_def)
  qed
qed

text \<open>
  Claim C1, as it is stated, fails: the frame that \<open>_create_frame\<close> builds for the command
  \<open>0x41\<close> with an empty payload is the four bytes \<open>DB 41 00 00\<close>, and \<open>_parse_buffer\<close>
  finds no frame in them. The encoder writes the outbound format (a header of four
  bytes), the scanner reads the inbound format (a header of five bytes, with a status
  byte after the command byte).
\<close>

theorem encode_scan_counterexample:
  "fst (create_frame [0, 0, 0, 0] 0x41 0 []) = 4 \<and>
   \<not> found (parse_buffer (snd (create_frame [0, 0, 0, 0] 0x41 0 [])) 4)"
  by (simp add: parse_buffer_def create_frame_def parse_loop.simps parse_body_def parse_init_def MSG_START_def MAX_TX_DATA_SIZE_def MSG_TX_HEADER_SIZE_def Let_def)

text \<open>
  Claim C1, amended. For every command \<open>C\<close>, status byte \<open>S\<close> and payload \<open>P\<close> of at most
  256 bytes, \<open>_create_frame\<close> builds the outbound frame \<open>[0xDB, C, count_lo, count_hi] @ P\<close>;
  the inbound form of that frame, which has the status byte \<open>S\<close> inserted after the
  command byte, followed by any further bytes, is found by \<open>_parse_buffer\<close> at offset 0,
  with frame length \<open>5 + |P|\<close>, command byte \<open>C\<close> and payload \<open>P\<close>.
\<close>

theorem scan_inbound_frame:
  assumes "length P \<le> MAX_TX_DATA_SIZE"
    and "length buffer = MSG_TX_HEADER_SIZE + length P"
    and "MSG_RX_HEADER_SIZE + length P \<le> unat len"
  shows "let tx = snd (create_frame buffer C (of_nat (length P)) P);
             rx = take 2 tx @ [S] @ drop 2 tx @ noise;
             r = parse_buffer rx len
         in tx = [MSG_START, C, ucast (of_nat (length P) :: u16),
                  ucast (drop_bit 8 (of_nat (length P) :: u16))] @ P \<and>
            found r \<and> frame_start r = 0 \<and>
            unat (frame_length r) = MSG_RX_HEADER_SIZE + length P \<and>
            remaining r = 0 \<and>
            rx ! (unat (frame_start r) + MSG_RX_INDEX_COMMAND) = C \<and>
            rx ! (unat (frame_start r) + MSG_RX_INDEX_STATUS) = S \<and>
            take (length P) (drop (unat (frame_start r) + MSG_RX_INDEX_DATA) rx) = P"
proof -
  let ?n = "of_nat (length P) :: u16"
  from assms(1) have n: "unat ?n = length P"
    by (simp add: MAX_TX_DATA_SIZE_def unat_of_nat)
  have tx: "snd (create_frame buffer C ?n P) = [MSG_START, C, ucast ?n, ucast (drop_bit 8 ?n)] @ P"
    using assms(1,2) n by (simp add: create_frame_bytes MAX_TX_DATA_SIZE_def MSG_TX_HEADER_SIZE_def)
  have rx: "take 2 (snd (create_frame buffer C ?n P)) @ [S] @ drop 2 (snd (create_frame buffer C ?n P)) @ noise
      = MSG_START # C # S # ucast ?n # ucast (drop_bit 8 ?n) # P @ noise"
    by (simp add: tx)
  have p: "parse_buffer (MSG_START # C # S # ucast ?n # ucast (drop_bit 8 ?n) # P @ noise) len =
     \<lparr> found = True, frame_start = 0, frame_length = ?n + 5, remaining = 0 \<rparr>"
    using n assms(3) by (intro parse_rx_frame) (simp_all add: MSG_RX_HEADER_SIZE_def)
  have fl: "unat (?n + 5) = 5 + length P"
    using assms(1) n by (simp add: unat_word_ariths MAX_TX_DATA_SIZE_def)
  show ?thesis
    unfolding Let_def rx p
    by (simp add: tx fl MSG_RX_HEADER_SIZE_def MSG_RX_INDEX_COMMAND_def MSG_RX_INDEX_STATUS_def MSG_RX_INDEX_DATA_def)
qed

theorem scan_inbound_frame_witness:
  "length [7, 8 :: u8] \<le> MAX_TX_DATA_SIZE \<and>
   length [0, 0, 0, 0, 0, 0 :: u8] = MSG_TX_HEADER_SIZE + length [7, 8 :: u8] \<and>
   MSG_RX_HEADER_SIZE + length [7, 8 :: u8] \<le> unat (9 :: u16) \<and>
   (let tx = snd (create_frame [0, 0, 0, 0, 0, 0] 0x41 (of_nat (length [7, 8 :: u8])) [7, 8]);
        rx = take 2 tx @ [0] @ drop 2 tx @ [0xFF, 0xFF];
        r = parse_buffer rx 9
    in tx = [MSG_START, 0x41, ucast (of_nat (length [7, 8 :: u8]) :: u16),
             ucast (drop_bit 8 (of_nat (length [7, 8 :: u8]) :: u16))] @ [7, 8] \<and>
       found r \<and> frame_start r = 0 \<and>
       unat (frame_length r) = MSG_RX_HEADER_SIZE + length [7, 8 :: u8] \<and>
       remaining r = 0 \<and>
       rx ! (unat (frame_start r) + MSG_RX_INDEX_COMMAND) = 0x41 \<and>
       rx ! (unat (frame_start r) + MSG_RX_INDEX_STATUS) = 0 \<and>
       take (length [7, 8 :: u8]) (drop (unat (frame_start r) + MSG_RX_INDEX_DATA) rx) = [7, 8])"
proof -
  have a: "length [7, 8 :: u8] \<le> MAX_TX_DATA_SIZE" by (simp add: MAX_TX_DATA_SIZE_def)
  have b: "length [0, 0, 0, 0, 0, 0 :: u8] = MSG_TX_HEADER_SIZE + length [7, 8 :: u8]"
    by (simp add: MSG_TX_HEADER_SIZE_def)
  have c: "MSG_RX_HEADER_SIZE + length [7, 8 :: u8] \<le> unat (9 :: u16)"
    by (simp add: MSG_RX_HEADER_SIZE_def)
  from a b c scan_inbound_frame [OF a b c, of "0x41" 0 "[0xFF, 0xFF]"] show ?thesis
    by blast
qed

section \<open>The conversion of a sample\<close>

lemma nat_or_push:
  fixes a b :: nat
  assumes "a < 2 ^ n"
  shows "push_bit n b OR a = b * 2 ^ n + a"
proof -
  from assms have "take_bit n a = a" by (simp add: take_bit_nat_eq_self_iff)
  moreover have "push_bit n b AND take_bit n a = 0"
    by (rule bit_eqI) (auto simp: bit_simps)
  ultimately have "push_bit n b AND a = 0" by simp
  then have "push_bit n b + a = push_bit n b OR a"
    by (rule disjunctive_add_eq_or)
  then show ?thesis by (simp add: push_bit_eq_mult)
qed

lemma unat_sample_bits:
  fixes p0 p1 p2 :: u8
  shows "unat (((push_bit 16 (ucast p0) OR push_bit 8 (ucast p1)) OR ucast p2) :: u32) =
         unat p0 * 65536 + unat p1 * 256 + unat p2"
proof -
  have b0: "unat p0 < 256" using unsigned_less [of p0] by simp
  have b1: "unat p1 < 256" using unsigned_less [of p1] by simp
  have b2: "unat p2 < 256" using unsigned_less [of p2] by simp
  have u0: "unat (ucast p0 :: u32) = unat p0"
    using b0 by (simp add: unsigned_ucast_eq take_bit_nat_eq_self_iff)
  have u1: "unat (ucast p1 :: u32) = unat p1"
    using b1 by (simp add: unsigned_ucast_eq take_bit_nat_eq_self_iff)
  have u2: "unat (ucast p2 :: u32) = unat p2"
    using b2 by (simp add: unsigned_ucast_eq take_bit_nat_eq_self_iff)
  have s0: "unat (push_bit 16 (ucast p0 :: u32)) = push_bit 16 (unat p0)"
    using b0 u0 by (simp add: push_bit_eq_mult unat_word_ariths)
  have s1: "unat (push_bit 8 (ucast p1 :: u32)) = unat p1 * 256"
    using b1 u1 by (simp add: push_bit_eq_mult unat_word_ariths)
  have "unat (((push_bit 16 (ucast p0) OR push_bit 8 (ucast p1)) OR ucast p2) :: u32) =
        (push_bit 16 (unat p0) OR unat p1 * 256) OR unat p2"
    by (simp only: unsigned_or_eq s0 s1 u2)
  also have "push_bit 16 (unat p0) OR unat p1 * 256 = unat p0 * 2 ^ 16 + unat p1 * 256"
    using b1 by (intro nat_or_push) simp
  also have "unat p0 * 2 ^ 16 + unat p1 * 256 = push_bit 8 (unat p0 * 256 + unat p1)"
    by (simp add: push_bit_eq_mult)
  also have "push_bit 8 (unat p0 * 256 + unat p1) OR unat p2 =
             (unat p0 * 256 + unat p1) * 2 ^ 8 + unat p2"
    using b2 by (intro nat_or_push) simp
  finally show ?thesis by simp
qed

lemma sign_bit_iff:
  fixes p0 :: u8
  shows "p0 AND 0x80 \<noteq> 0 \<longleftrightarrow> 128 \<le> unat p0"
proof -
  have lt: "unat p0 < 256" using unsigned_less [of p0] by simp
  have "p0 AND 0x80 = p0 AND 2 ^ 7" by simp
  then have "p0 AND 0x80 \<noteq> 0 \<longleftrightarrow> bit p0 7"
    by (simp only: and_exp_eq_0_iff_not_bit) simp
  also have "bit p0 7 \<longleftrightarrow> bit (unat p0) 7"
    by (simp add: bit_unsigned_iff)
  also have "\<dots> \<longleftrightarrow> odd (unat p0 div 128)"
    by (simp add: bit_iff_odd)
  also have "\<dots> \<longleftrightarrow> 128 \<le> unat p0"
  proof (cases "128 \<le> unat p0")
    case True
    with lt have "unat p0 div 128 = 1" by simp
    with True show ?thesis by simp
  next
    case False
    then have "unat p0 div 128 = 0" by simp
    with False show ?thesis by simp
  qed
  finally show ?thesis .
qed

lemma signed_take_bit_31:
  fixes k :: int
  assumes "0 \<le> k" and "k < 2 ^ 32"
  shows "signed_take_bit 31 k = (if k < 2 ^ 31 then k else k - 2 ^ 32)"
proof (cases "k < 2 ^ 31")
  case True
  with assms(1) have "signed_take_bit 31 k = k"
    by (intro signed_take_bit_int_eq_self) simp_all
  with True show ?thesis by simp
next
  case False
  let ?x = "k + 2 ^ 31"
  have "take_bit 32 ?x = ?x mod 2 ^ 32" by (simp add: take_bit_eq_mod)
  also have "\<dots> = (?x - 2 ^ 32) mod 2 ^ 32" by (simp only: minus_mod_self2)
  also have "\<dots> = ?x - 2 ^ 32"
    using False assms(2) by (intro mod_pos_pos_trivial) simp_all
  finally have "take_bit 32 ?x = ?x - 2 ^ 32" .
  then have "signed_take_bit 31 k = k - 2 ^ 32"
    by (simp add: signed_take_bit_eq_take_bit_shift)
  with False show ?thesis by simp
qed

lemma sint_u32:
  fixes w :: u32
  shows "sint w = (if uint w < 2 ^ 31 then uint w else uint w - 2 ^ 32)"
proof -
  have "uint w < 2 ^ 32" using uint_lt2p [of w] by simp
  then have "signed_take_bit 31 (uint w) = (if uint w < 2 ^ 31 then uint w else uint w - 2 ^ 32)"
    by (intro signed_take_bit_31) simp_all
  then show ?thesis by (simp add: sint_uint)
qed

lemma sint_sample_value:
  "sint (sample_value b0 b1 b2) =
     sign_extend24 (int (unat b0) * 65536 + int (unat b1) * 256 + int (unat b2))"
proof -
  let ?w = "((push_bit 16 (ucast b0) OR push_bit 8 (ucast b1)) OR ucast b2) :: u32"
  define n where "n = unat b0 * 65536 + unat b1 * 256 + unat b2"
  have v: "unat ?w = n" unfolding n_def by (rule unat_sample_bits)
  have l0: "unat b0 < 256" using unsigned_less [of b0] by simp
  have l1: "unat b1 < 256" using unsigned_less [of b1] by simp
  have l2: "unat b2 < 256" using unsigned_less [of b2] by simp
  from l0 l1 l2 have n24: "n < 2 ^ 24" unfolding n_def by simp
  have arg: "int (unat b0) * 65536 + int (unat b1) * 256 + int (unat b2) = int n"
    unfolding n_def by simp
  show ?thesis
  proof (cases "b0 AND 0x80 \<noteq> 0")
    case True
    then have "128 \<le> unat b0" by (simp only: sign_bit_iff)
    then have big: "2 ^ 23 \<le> n" unfolding n_def by simp
    have val: "sample_value b0 b1 b2 = 0xFF000000 OR ?w"
      using True by (simp add: sample_value_def or.assoc)
    have "unat ((0xFF000000 :: u32) OR ?w) = unat (0xFF000000 :: u32) OR unat ?w"
      by (rule unsigned_or_eq)
    also have "\<dots> = push_bit 24 (255 :: nat) OR n"
      by (simp only: v) simp
    also have "\<dots> = 255 * 2 ^ 24 + n"
      using n24 by (rule nat_or_push)
    finally have "uint ((0xFF000000 :: u32) OR ?w) = int (255 * 2 ^ 24 + n)"
      by (simp only: uint_nat)
    then have "sint ((0xFF000000 :: u32) OR ?w) = int n - 2 ^ 24"
      by (simp only: sint_u32) simp
    with big show ?thesis
      unfolding val arg by (simp add: sign_extend24_def)
  next
    case False
    then have "unat b0 < 128" by (simp only: sign_bit_iff not_le not_not)
    with l1 l2 have small: "n < 2 ^ 23" unfolding n_def by simp
    have val: "sample_value b0 b1 b2 = ?w"
      using False by (simp add: sample_value_def)
    have "uint ?w = int n"
      by (simp only: uint_nat v)
    with small have "sint ?w = int n"
      by (simp only: sint_u32) simp
    with small show ?thesis
      unfolding val arg by (simp add: sign_extend24_def)
  qed
qed


text \<open>
  Claim C7. The conversion in \<open>_a_in_read_scan_data\<close> maps every sample of three bytes
  \<open>(b0, b1, b2)\<close> to the two's-complement sign extension of the 24-bit value
  \<open>b0 * 65536 + b1 * 256 + b2\<close>; in particular \<open>(0x80, 0x00, 0x00)\<close> gives \<open>-8388608\<close>,
  \<open>(0x7F, 0xFF, 0xFF)\<close> gives \<open>8388607\<close> and \<open>(0x00, 0x00, 0x01)\<close> gives 1.
\<close>

theorem sample_value_sign_extension:
  "sint (sample_value b0 b1 b2) =
     sign_extend24 (int (unat b0) * 65536 + int (unat b1) * 256 + int (unat b2)) \<and>
   sint (sample_value 0x80 0x00 0x00) = - 8388608 \<and>
   sint (sample_value 0x7F 0xFF 0xFF) = 8388607 \<and>
   sint (sample_value 0x00 0x00 0x01) = 1"
  by (simp only: sint_sample_value) (simp add: sign_extend24_def)

theorem sample_value_sign_extension_witness:
  "sint (sample_value 0xFF 0xFF 0xFE) = - 2"
  using sample_value_sign_extension [of "0xFF" "0xFF" "0xFE"] by (simp add: sign_extend24_def)

section \<open>The status mapping of \<open>_spi_transfer\<close>\<close>

lemma reply_loop_found:
  "reply_loop reads rx read_amount r0 = (True, rx2, r) \<Longrightarrow>
   found r \<and> r = parse_buffer rx2 (read_amount + 1)"
proof (induction reads rx read_amount r0 rule: reply_loop.induct)
  case (1 rx_buffer read_amount r')
  then show ?case by simp
next
  case (2 reads rx_buffer read_amount r')
  then show ?case by auto
next
  case (3 bytes reads rx_buffer read_amount r')
  then show ?case by (auto simp: Let_def split: if_splits)
qed

lemma create_frame_command:
  assumes "unat count \<le> MAX_TX_DATA_SIZE" and "4 \<le> length buffer"
  shows "snd (create_frame buffer command count data) ! MSG_TX_INDEX_COMMAND = command"
  using assms
  by (simp add: create_frame_def MAX_TX_DATA_SIZE_def MSG_TX_INDEX_COMMAND_def memcpy_at_def
      Let_def nth_append)

lemma spi_exchange_Inr:
  assumes "spi_exchange h st hw address command tx_data tx_data_count rx_data rx_data_count =
      Inr (tx_buffer, rx_buffer, r)"
  shows "found r \<and> r = parse_buffer rx_buffer (rx_data_count + of_nat MSG_RX_HEADER_SIZE + 1) \<and>
     tx_buffer = snd (create_frame (replicate (unat (of_nat MSG_TX_HEADER_SIZE + tx_data_count :: u16)) 0)
        command tx_data_count (case tx_data of None \<Rightarrow> [] | Some d \<Rightarrow> d))"
  using assms
  by (auto simp: spi_exchange_def Let_def split: if_splits option.splits prod.splits bool.splits
      dest: reply_loop_found)


text \<open>
  Claim C2. In \<open>_spi_transfer\<close>, whenever a frame is found: if the command byte of the
  reply equals the command sent, the status byte maps to the result as \<open>0x00\<close> to Success
  (with the payload copied into \<open>rx_data\<close> when \<open>rx_data_count > 0\<close>), \<open>0x02\<close> to
  BadParameter, \<open>0x03\<close> to Busy, \<open>0x05\<close> to Timeout and every other value to Undefined;
  if the command byte differs, the result is BadParameter. The hypothesis says that the
  function has reached a found frame; the transmit payload fits the frame, so that the
  command byte of the transmit buffer is the command.
\<close>

theorem spi_transfer_status_mapping:
  assumes ex: "spi_exchange h st hw address command tx_data tx_data_count rx_data rx_data_count =
      Inr (tx_buffer, rx_buffer, r)"
    and cnt: "unat tx_data_count \<le> MAX_TX_DATA_SIZE"
  shows "found r \<and>
     r = parse_buffer rx_buffer (rx_data_count + of_nat MSG_RX_HEADER_SIZE + 1) \<and>
     spi_transfer h st hw address command tx_data tx_data_count rx_data rx_data_count =
       (let reply_command = rx_buffer ! (unat (frame_start r) + MSG_RX_INDEX_COMMAND);
            status = rx_buffer ! (unat (frame_start r) + MSG_RX_INDEX_STATUS);
            payload = take (unat rx_data_count)
                        (drop (unat (frame_start r) + MSG_RX_INDEX_DATA) rx_buffer)
        in if reply_command = command then
             (if status = 0x00 then
                (RESULT_SUCCESS,
                 if rx_data_count > 0
                 then map_option (\<lambda>d. payload @ drop (unat rx_data_count) d) rx_data
                 else rx_data)
              else if status = 0x02 then (RESULT_BAD_PARAMETER, rx_data)
              else if status = 0x03 then (RESULT_BUSY, rx_data)
              else if status = 0x05 then (RESULT_TIMEOUT, rx_data)
              else (RESULT_UNDEFINED, rx_data))
           else (RESULT_BAD_PARAMETER, rx_data))"
proof -
  note I = spi_exchange_Inr [OF ex]
  from cnt have "unat (of_nat MSG_TX_HEADER_SIZE + tx_data_count :: u16) = 4 + unat tx_data_count"
    by (simp add: MSG_TX_HEADER_SIZE_def MAX_TX_DATA_SIZE_def unat_word_ariths)
  then have "4 \<le> length (replicate (unat (of_nat MSG_TX_HEADER_SIZE + tx_data_count :: u16)) (0 :: u8))"
    by simp
  with cnt I have cmd: "tx_buffer ! MSG_TX_INDEX_COMMAND = command"
    by (simp only: create_frame_command)
  have "spi_transfer h st hw address command tx_data tx_data_count rx_data rx_data_count =
      spi_decode tx_buffer rx_buffer (frame_start r) rx_data rx_data_count"
    by (simp add: spi_transfer_def ex)
  also have "\<dots> =
       (let reply_command = rx_buffer ! (unat (frame_start r) + MSG_RX_INDEX_COMMAND);
            status = rx_buffer ! (unat (frame_start r) + MSG_RX_INDEX_STATUS);
            payload = take (unat rx_data_count)
                        (drop (unat (frame_start r) + MSG_RX_INDEX_DATA) rx_buffer)
        in if reply_command = command then
             (if status = 0x00 then
                (RESULT_SUCCESS,
                 if rx_data_count > 0
                 then map_option (\<lambda>d. payload @ drop (unat rx_data_count) d) rx_data
                 else rx_data)
              else if status = 0x02 then (RESULT_BAD_PARAMETER, rx_data)
              else if status = 0x03 then (RESULT_BUSY, rx_data)
              else if status = 0x05 then (RESULT_TIMEOUT, rx_data)
              else (RESULT_UNDEFINED, rx_data))
           else (RESULT_BAD_PARAMETER, rx_data))"
    by (simp add: spi_decode_def cmd Let_def memcpy_at_def FW_RES_SUCCESS_def
        FW_RES_BAD_PARAMETER_def FW_RES_TIMEOUT_def FW_RES_BUSY_def)
  finally have t: "spi_transfer h st hw address command tx_data tx_data_count rx_data rx_data_count =
       (let reply_command = rx_buffer ! (unat (frame_start r) + MSG_RX_INDEX_COMMAND);
            status = rx_buffer ! (unat (frame_start r) + MSG_RX_INDEX_STATUS);
            payload = take (unat rx_data_count)
                        (drop (unat (frame_start r) + MSG_RX_INDEX_DATA) rx_buffer)
        in if reply_command = command then
             (if status = 0x00 then
                (RESULT_SUCCESS,
                 if rx_data_count > 0
                 then map_option (\<lambda>d. payload @ drop (unat rx_data_count) d) rx_data
                 else rx_data)
              else if status = 0x02 then (RESULT_BAD_PARAMETER, rx_data)
              else if status = 0x03 then (RESULT_BUSY, rx_data)
              else if status = 0x05 then (RESULT_TIMEOUT, rx_data)
              else (RESULT_UNDEFINED, rx_data))
           else (RESULT_BAD_PARAMETER, rx_data))" .
  from I have f: "found r" by blast
  from I have e: "r = parse_buffer rx_buffer (rx_data_count + of_nat MSG_RX_HEADER_SIZE + 1)"
    by blast
  show ?thesis by (intro conjI f e t)
qed

lemma replicate_numeral:
  "replicate (numeral k) x = x # replicate (pred_numeral k) x"
  by (simp add: numeral_eq_Suc)

lemma check_addr_idle:
  "check_addr daqhats_h_values idle_state 0"
  by (simp add: check_addr_def daqhats_h_values_def idle_state_def idle_device_def zero_device_def)

text \<open>The rules that evaluate a transfer on concrete inputs.\<close>

lemmas spi_eval = spi_transfer_def spi_exchange_def spi_decode_def
  hw_reply_def hw_silent_def create_frame_def bytes_of_def
  MAX_TX_DATA_SIZE_def MSG_TX_HEADER_SIZE_def MSG_RX_HEADER_SIZE_def spi_mode_def
  memcpy_at_def parse_buffer_def parse_loop.simps parse_body_def parse_init_def
  MSG_START_def MSG_RX_INDEX_COMMAND_def MSG_TX_INDEX_COMMAND_def MSG_RX_INDEX_STATUS_def
  MSG_RX_INDEX_DATA_def FW_RES_SUCCESS_def FW_RES_BAD_PARAMETER_def FW_RES_TIMEOUT_def
  FW_RES_BUSY_def Let_def replicate_numeral word_le_nat_alt word_less_nat_alt

theorem spi_transfer_status_mapping_witness:
  "spi_exchange daqhats_h_values idle_state
     (hw_reply 0xDB [0x15, 0x00, 0x02, 0x00, 0x80, 0x04, 0x00]) 0 0x15 None 0 (Some [0, 0]) 2 =
     Inr ([0xDB, 0x15, 0, 0], [0xDB, 0x15, 0x00, 0x02, 0x00, 0x80, 0x04, 0x00, 0, 0, 0, 0],
          \<lparr> found = True, frame_start = 0, frame_length = 7, remaining = 0 \<rparr>) \<and>
   unat (0 :: u16) \<le> MAX_TX_DATA_SIZE \<and>
   spi_transfer daqhats_h_values idle_state
     (hw_reply 0xDB [0x15, 0x00, 0x02, 0x00, 0x80, 0x04, 0x00]) 0 0x15 None 0 (Some [0, 0]) 2 =
     (RESULT_SUCCESS, Some [0x80, 0x04])"
proof -
  have ex: "spi_exchange daqhats_h_values idle_state
     (hw_reply 0xDB [0x15, 0x00, 0x02, 0x00, 0x80, 0x04, 0x00]) 0 0x15 None 0 (Some [0, 0]) 2 =
     Inr ([0xDB, 0x15, 0, 0], [0xDB, 0x15, 0x00, 0x02, 0x00, 0x80, 0x04, 0x00, 0, 0, 0, 0],
          \<lparr> found = True, frame_start = 0, frame_length = 7, remaining = 0 \<rparr>)"
    using check_addr_idle by (simp add: spi_eval)
  have cnt: "unat (0 :: u16) \<le> MAX_TX_DATA_SIZE" by simp
  from spi_transfer_status_mapping [OF ex cnt] ex cnt show ?thesis
    by (simp add: MSG_RX_INDEX_COMMAND_def MSG_RX_INDEX_STATUS_def MSG_RX_INDEX_DATA_def)
qed

section \<open>The configuration lockout during a scan\<close>

lemma check_addr_scanning:
  "check_addr daqhats_h_values scanning_state 0"
  by (simp add: check_addr_def daqhats_h_values_def scanning_state_def idle_device_def
      zero_device_def)

lemma scan_info_scanning:
  "scan_info (the (devices scanning_state 0)) \<noteq> None"
  by (simp add: scanning_state_def)

text \<open>
  Claim C3, as it is stated, fails: while a scan is active on the open device at address
  0, \<open>mcc172_calibration_coefficient_write\<close> for channel 2 returns BadParameter, not Busy.
  Each of the five functions validates its arguments before it looks at the scan
  pointer.
\<close>

theorem config_lockout_counterexample:
  "check_addr daqhats_h_values scanning_state 0 \<and>
   scan_info (the (devices scanning_state 0)) \<noteq> None \<and>
   mcc172_calibration_coefficient_write daqhats_h_values scanning_state 0 2 1 0 =
     (RESULT_BAD_PARAMETER, scanning_state) \<and>
   RESULT_BAD_PARAMETER \<noteq> RESULT_BUSY"
  using check_addr_scanning scan_info_scanning
  by (simp add: mcc172_calibration_coefficient_write_def NUM_CHANNELS_def)

text \<open>
  Claim C3, amended. For every open device whose scan pointer is not \<open>NULL\<close>, each of
  \<open>mcc172_a_in_clock_config_write\<close>, \<open>mcc172_IEPE_config_write\<close>, \<open>mcc172_trigger_config\<close>,
  \<open>mcc172_calibration_coefficient_write\<close> and \<open>mcc172_a_in_scan_start\<close> returns Busy when
  it is called with arguments that pass its validation, and BadParameter when it is
  called with arguments that fail it; in both cases the state of the library, with the
  device record in it, is unchanged.
\<close>

theorem config_lockout:
  assumes chk: "check_addr h st address"
    and scan: "scan_info (the (devices st address)) \<noteq> None"
  shows
    "mcc172_a_in_clock_config_write h st hw address clock_source rate =
       (if clock_source \<le> 1 then (RESULT_BUSY, st) else (RESULT_BAD_PARAMETER, st)) \<and>
     mcc172_IEPE_config_write h st hw_read hw_write address channel config =
       (if unat channel < NUM_CHANNELS \<and> config \<le> 1 then (RESULT_BUSY, st)
        else (RESULT_BAD_PARAMETER, st)) \<and>
     mcc172_trigger_config h st hw address source mode =
       (if source \<le> 2 \<and> mode \<le> TRIG_ACTIVE_LOW h then (RESULT_BUSY, st)
        else (RESULT_BAD_PARAMETER, st)) \<and>
     mcc172_calibration_coefficient_write h st address channel slope offset =
       (if unat channel < NUM_CHANNELS then (RESULT_BUSY, st) else (RESULT_BAD_PARAMETER, st)) \<and>
     mcc172_a_in_scan_start h env st address channel_mask samples_per_channel opts =
       (if channel_mask \<noteq> 0 \<and> unat channel_mask < 2 ^ NUM_CHANNELS \<and>
           (samples_per_channel \<noteq> 0 \<or> opts AND OPTS_CONTINUOUS h \<noteq> 0)
        then Some (RESULT_BUSY, st) else Some (RESULT_BAD_PARAMETER, st))"
proof -
  have clock: "mcc172_a_in_clock_config_write h st hw address clock_source rate =
      (if clock_source \<le> 1 then (RESULT_BUSY, st) else (RESULT_BAD_PARAMETER, st))"
    using chk scan by (simp add: mcc172_a_in_clock_config_write_def not_le)
  have iepe: "mcc172_IEPE_config_write h st hw_read hw_write address channel config =
      (if unat channel < NUM_CHANNELS \<and> config \<le> 1 then (RESULT_BUSY, st)
       else (RESULT_BAD_PARAMETER, st))"
    using chk scan by (auto simp: mcc172_IEPE_config_write_def not_le)
  have trig: "mcc172_trigger_config h st hw address source mode =
      (if source \<le> 2 \<and> mode \<le> TRIG_ACTIVE_LOW h then (RESULT_BUSY, st)
       else (RESULT_BAD_PARAMETER, st))"
    using chk scan by (auto simp: mcc172_trigger_config_def not_le)
  have cal: "mcc172_calibration_coefficient_write h st address channel slope offset =
      (if unat channel < NUM_CHANNELS then (RESULT_BUSY, st) else (RESULT_BAD_PARAMETER, st))"
    using chk scan by (auto simp: mcc172_calibration_coefficient_write_def Let_def not_le)
  have start: "mcc172_a_in_scan_start h env st address channel_mask samples_per_channel opts =
      (if channel_mask \<noteq> 0 \<and> unat channel_mask < 2 ^ NUM_CHANNELS \<and>
          (samples_per_channel \<noteq> 0 \<or> opts AND OPTS_CONTINUOUS h \<noteq> 0)
       then Some (RESULT_BUSY, st) else Some (RESULT_BAD_PARAMETER, st))"
    using chk scan by (auto simp: mcc172_a_in_scan_start_def Let_def not_le)
  show ?thesis
    by (intro conjI clock iepe trig cal start)
qed

theorem config_lockout_witness:
  "check_addr daqhats_h_values scanning_state 0 \<and>
   scan_info (the (devices scanning_state 0)) \<noteq> None \<and>
   mcc172_a_in_clock_config_write daqhats_h_values scanning_state hw_silent 0 0 1000 =
     (RESULT_BUSY, scanning_state) \<and>
   mcc172_IEPE_config_write daqhats_h_values scanning_state hw_silent hw_silent 0 1 1 =
     (RESULT_BUSY, scanning_state) \<and>
   mcc172_trigger_config daqhats_h_values scanning_state hw_silent 0 1 0 =
     (RESULT_BUSY, scanning_state) \<and>
   mcc172_calibration_coefficient_write daqhats_h_values scanning_state 0 1 2 3 =
     (RESULT_BUSY, scanning_state) \<and>
   mcc172_a_in_scan_start daqhats_h_values env_ok scanning_state 0 3 100 0 =
     Some (RESULT_BUSY, scanning_state) \<and>
   mcc172_a_in_clock_config_write daqhats_h_values scanning_state hw_silent 0 2 1000 =
     (RESULT_BAD_PARAMETER, scanning_state) \<and>
   mcc172_IEPE_config_write daqhats_h_values scanning_state hw_silent hw_silent 0 1 2 =
     (RESULT_BAD_PARAMETER, scanning_state) \<and>
   mcc172_trigger_config daqhats_h_values scanning_state hw_silent 0 3 0 =
     (RESULT_BAD_PARAMETER, scanning_state) \<and>
   mcc172_a_in_scan_start daqhats_h_values env_ok scanning_state 0 4 100 0 =
     Some (RESULT_BAD_PARAMETER, scanning_state)"
  using config_lockout [OF check_addr_scanning scan_info_scanning,
      where hw = hw_silent and clock_source = 0 and rate = 1000 and hw_read = hw_silent
        and hw_write = hw_silent and channel = 1 and config = 1 and source = 1 and mode = 0
        and slope = 2 and offset = 3 and env = env_ok and channel_mask = 3
        and samples_per_channel = 100 and opts = 0]
    config_lockout [OF check_addr_scanning scan_info_scanning,
      where hw = hw_silent and clock_source = 2 and rate = 1000 and hw_read = hw_silent
        and hw_write = hw_silent and channel = 1 and config = 2 and source = 3 and mode = 0
        and slope = 2 and offset = 3 and env = env_ok and channel_mask = 4
        and samples_per_channel = 100 and opts = 0]
    check_addr_scanning scan_info_scanning
  by (simp add: NUM_CHANNELS_def daqhats_h_values_def word_le_nat_alt word_less_nat_alt)

section \<open>The size of the scan buffer\<close>

lemma spi_transfer_state:
  "check_addr h st' address = check_addr h st address \<Longrightarrow>
   spi_transfer h st' hw address command tx_data tx_data_count rx_data rx_data_count =
   spi_transfer h st hw address command tx_data tx_data_count rx_data rx_data_count"
  by (simp add: spi_transfer_def spi_exchange_def)

lemma check_addr_set_scan_info:
  "devices st address = Some dev \<Longrightarrow>
   check_addr h (set_device st address (Some (dev\<lparr> scan_info := x \<rparr>))) address =
   check_addr h st address"
  by (simp add: check_addr_def set_device_def)

lemma channels_upt: "[0 ..< NUM_CHANNELS] = [0, 1]"
  by (simp add: NUM_CHANNELS_def upt_rec)

lemma clock_read_ok:
  "spi_transfer daqhats_h_values idle_state (hw_reply 0xDB [0x15, 0x00, 0x02, 0x00, 0x80, 0x00, 0x00])
     0 CMD_AINCLOCKCONFIG_R None 0 (Some [0, 0]) 2 = (RESULT_SUCCESS, Some [0x80, 0x00])"
  using check_addr_idle by (simp add: spi_eval CMD_AINCLOCKCONFIG_R_def)

lemma start_ok:
  "spi_transfer daqhats_h_values idle_state (hw_reply 0xDB [0x11, 0x00, 0x00, 0x00, 0x00])
     0 CMD_AINSCANSTART (Some [a, b, c, d, e]) 5 None 0 = (RESULT_SUCCESS, None)"
  using check_addr_idle by (simp add: spi_eval CMD_AINSCANSTART_def)

lemma idle_dev: "devices idle_state 0 = Some idle_device"
  by (simp add: idle_state_def)

lemma wait_sync_ok:
  "wait_sync daqhats_h_values (set_device idle_state 0 (Some (idle_device\<lparr> scan_info := x \<rparr>))) 0
     (se_clock_hw env_ok) = Some (Inr 51200)"
proof -
  have c: "check_addr daqhats_h_values (set_device idle_state 0 (Some (idle_device\<lparr> scan_info := x \<rparr>))) 0"
    using check_addr_idle by (simp add: check_addr_set_scan_info [OF idle_dev])
  have "spi_transfer daqhats_h_values (set_device idle_state 0 (Some (idle_device\<lparr> scan_info := x \<rparr>)))
      (hw_reply 0xDB [0x15, 0x00, 0x02, 0x00, 0x80, 0x00, 0x00]) 0 CMD_AINCLOCKCONFIG_R None 0
      (Some [0, 0]) 2 = (RESULT_SUCCESS, Some [0x80, 0x00])"
    using c check_addr_idle by (simp add: spi_transfer_state [of _ _ _ idle_state] clock_read_ok)
  then show ?thesis
    using c by (simp add: env_ok_def mcc172_a_in_clock_config_read_def bytes_of_def
        MAX_SAMPLE_RATE_def Let_def)
qed


lemma replicate_channels: "replicate NUM_CHANNELS x = [x, x]"
  by (simp add: NUM_CHANNELS_def numeral_2_eq_2)

lemma threshold_51200: "scan_read_threshold 51200 1 = 1363"
  by (simp add: scan_read_threshold_def MAX_SAMPLES_READ_def MAX_SPI_TRANSFER_def
      MSG_RX_HEADER_SIZE_def SAMPLE_SIZE_BYTES_def COUNT_NORMALIZE_def Let_def)

lemma channels_mask1:
  "foldl (add_channel 1 (factory_data idle_device)) (zero_info\<lparr> options := 0 \<rparr>, 0) [0 ..< NUM_CHANNELS] =
     (zero_info\<lparr> options := 0, channels := [0, 0], info_slopes := [1, 0], info_offsets := [0, 0] \<rparr>, 1)"
  by (simp add: channels_upt add_channel_def idle_device_def set_defaults_def zero_info_def
      replicate_channels Let_def)

text \<open>
  Claim C4 says that the buffer size after a successful \<open>mcc172_a_in_scan_start\<close> never
  exceeds 16 Mi samples. The source defines \<open>MAX_SCAN_BUFFER_SIZE_SAMPLES\<close> and never uses
  it: a finite scan of 20000000 samples on channel 0 starts with Success and a buffer of
  20000000 samples.
\<close>

theorem scan_start_buffer_over_16Mi:
  "mcc172_a_in_scan_start daqhats_h_values env_ok idle_state 0 0x01 20000000 0 =
     Some (RESULT_SUCCESS,
           set_device idle_state 0 (Some (idle_device\<lparr> scan_info := Some started_info \<rparr>))) \<and>
   buffer_size started_info = 20000000 \<and>
   MAX_SCAN_BUFFER_SIZE_SAMPLES < unat (buffer_size started_info)"
proof -
  have c: "check_addr daqhats_h_values (set_device idle_state 0 (Some (idle_device\<lparr> scan_info := x \<rparr>))) 0" for x
    using check_addr_idle by (simp add: check_addr_set_scan_info [OF idle_dev])
  have st: "spi_transfer daqhats_h_values (set_device idle_state 0 (Some (idle_device\<lparr> scan_info := x \<rparr>)))
      (hw_reply 0xDB [0x11, 0x00, 0x00, 0x00, 0x00]) 0 CMD_AINSCANSTART (Some [a, b, c, d, e]) 5 None 0 =
      (RESULT_SUCCESS, None)" for x a b c d e
    using c [of x] check_addr_idle by (simp add: spi_transfer_state [of _ _ _ idle_state] start_ok)
  have none: "scan_info idle_device = None"
    by (simp add: idle_device_def zero_device_def)
  have opts: "(0 :: u32) AND OPTS_CONTINUOUS daqhats_h_values = 0"
    "(0 :: u32) AND OPTS_EXTTRIGGER daqhats_h_values = 0"
    by simp_all
  have mask: "\<not> unat (1 :: u8) \<ge> 2 ^ NUM_CHANNELS"
    by (simp add: NUM_CHANNELS_def)
  have se: "se_info_alloc_ok env_ok" "se_buffer_alloc_ok env_ok" "se_attr_init_ok env_ok"
    "se_start_hw env_ok = hw_reply 0xDB [0x11, 0x00, 0x00, 0x00, 0x00]"
    "se_thread_create env_ok = Some 1"
    by (simp_all add: env_ok_def)
  have run: "mcc172_a_in_scan_start daqhats_h_values env_ok idle_state 0 0x01 20000000 0 =
     Some (RESULT_SUCCESS,
           set_device idle_state 0 (Some (idle_device\<lparr> scan_info := Some started_info \<rparr>)))"
    using check_addr_idle mask
    apply (simp add: mcc172_a_in_scan_start_def idle_dev none opts channels_mask1 wait_sync_ok
        scan_buffer_size_def threshold_51200 st Let_def se)
    apply (simp add: started_info_def zero_info_def)
    done
  show ?thesis
    by (simp add: run) (simp add: started_info_def MAX_SCAN_BUFFER_SIZE_SAMPLES_def)
qed

theorem scan_start_buffer_over_16Mi_witness:
  "map_option fst (mcc172_a_in_scan_start daqhats_h_values env_ok idle_state 0 0x01 20000000 0) =
     Some RESULT_SUCCESS"
  using scan_start_buffer_over_16Mi by simp

section \<open>The ID handshake of \<open>mcc172_open\<close>\<close>

lemma id_loop_all_fail:
  assumes "fst (spi_transfer h st (oe_id_hw env 0) address CMD_ID None 0 (Some (replicate 6 0)) 4)
             \<noteq> RESULT_SUCCESS"
    and "fst (spi_transfer h st (oe_id_hw env 1) address CMD_ID None 0 (Some (replicate 6 0)) 4)
             \<noteq> RESULT_SUCCESS"
  shows "id_loop h env st address 0 = (RESULT_SUCCESS, st)"
proof -
  have "id_loop h env st address 1 = (RESULT_SUCCESS, st)"
    using assms(2) by (subst id_loop.simps) (simp add: Let_def)
  then show ?thesis
    using assms(1) by (subst id_loop.simps) (simp add: Let_def)
qed

lemma silent_timeout:
  "check_addr h st address \<Longrightarrow>
   spi_transfer h st hw_silent address command None 0 (Some d) 4 = (RESULT_TIMEOUT, Some d)"
  by (simp add: spi_transfer_def spi_exchange_def hw_silent_def spi_mode_def Let_def
      MSG_RX_HEADER_SIZE_def replicate_numeral)

lemma open_device_fresh:
  "open_device daqhats_h_values env_silent (mcc172_lib_init fresh_state) 0 = Inr idle_state"
  by (simp add: open_device_def mcc172_lib_init_def fresh_state_def env_silent_def
      daqhats_h_values_def idle_state_def idle_device_def set_device_def zero_device_def Let_def)

text \<open>
  Claim C5 says that an ID handshake that fails on every attempt does not yield Success
  from \<open>mcc172_open\<close>. In the source the loop of two attempts is followed by
  \<open>return RESULT_SUCCESS\<close>: when the board never answers, both transfers time out and
  \<open>mcc172_open\<close> returns Success, with the device registered and no firmware version
  stored.
\<close>

theorem open_succeeds_without_id:
  "spi_transfer daqhats_h_values idle_state (oe_id_hw env_silent 0) 0 CMD_ID None 0
     (Some (replicate 6 0)) 4 = (RESULT_TIMEOUT, Some (replicate 6 0)) \<and>
   spi_transfer daqhats_h_values idle_state (oe_id_hw env_silent 1) 0 CMD_ID None 0
     (Some (replicate 6 0)) 4 = (RESULT_TIMEOUT, Some (replicate 6 0)) \<and>
   mcc172_open daqhats_h_values env_silent fresh_state 0 = (RESULT_SUCCESS, idle_state) \<and>
   mcc172_open_for_update daqhats_h_values env_silent fresh_state 0 = (RESULT_SUCCESS, idle_state)"
proof -
  have hw: "oe_id_hw env_silent n = hw_silent" for n
    by (simp add: env_silent_def)
  have t: "spi_transfer daqhats_h_values idle_state (oe_id_hw env_silent n) 0 CMD_ID None 0
     (Some (replicate 6 0)) 4 = (RESULT_TIMEOUT, Some (replicate 6 0))" for n
    unfolding hw using check_addr_idle by (rule silent_timeout)
  have loop: "id_loop daqhats_h_values env_silent idle_state 0 0 = (RESULT_SUCCESS, idle_state)"
    by (rule id_loop_all_fail) (simp_all add: t)
  have max: "\<not> unat (0 :: u8) \<ge> MAX_NUMBER_HATS daqhats_h_values"
    by (simp add: daqhats_h_values_def)
  have op: "mcc172_open daqhats_h_values env_silent fresh_state 0 = (RESULT_SUCCESS, idle_state)"
    using max by (simp add: mcc172_open_def open_device_fresh loop Let_def)
  have init: "mcc172_lib_init (mcc172_lib_init fresh_state) = mcc172_lib_init fresh_state"
    by (simp add: mcc172_lib_init_def)
  have op': "mcc172_open daqhats_h_values env_silent (mcc172_lib_init fresh_state) 0 =
      (RESULT_SUCCESS, idle_state)"
    using max by (simp add: mcc172_open_def init open_device_fresh loop Let_def)
  have upd: "mcc172_open_for_update daqhats_h_values env_silent fresh_state 0 =
      (RESULT_SUCCESS, idle_state)"
    using max by (simp add: mcc172_open_for_update_def op' Let_def)
  show ?thesis
    by (intro conjI t op upd)
qed

theorem open_succeeds_without_id_witness:
  "fst (mcc172_open daqhats_h_values env_silent fresh_state 0) = RESULT_SUCCESS"
  using open_succeeds_without_id by simp

section \<open>Calibration and scaling of a sample\<close>

lemma LSB_SIZE_value: "LSB_SIZE = 10 / 2 ^ 23"
  by (simp add: LSB_SIZE_def RANGE_MAX_def RANGE_MIN_def MAX_CODE_def)

lemma convert_sample_cases:
  "convert_sample scaled calibrated info ptr =
    (let raw = real_of_int (sint (sample_value (ptr ! 0) (ptr ! 1) (ptr ! 2)));
         s = info_slopes info ! unat (channel_index info);
         o' = info_offsets info ! unat (channel_index info)
     in if scaled \<and> calibrated then (raw * s + o') * LSB_SIZE
        else if calibrated then raw * s + o'
        else if scaled then raw * LSB_SIZE
        else raw)"
  by (simp add: convert_sample_def Let_def)

lemma data_read_min_code:
  "spi_transfer daqhats_h_values scanning_state
     (hw_reply 0xDB [0x13, 0x00, 0x03, 0x00, 0x80, 0x00, 0x00, 0x00]) 0 CMD_AINSCANDATA
     (Some [1, 0]) 2 (Some [0, 0, 0]) 3 = (RESULT_SUCCESS, Some [0x80, 0x00, 0x00])"
  using check_addr_scanning by (simp add: spi_eval CMD_AINSCANDATA_def)

text \<open>
  Claim C6 gives the value delivered to the ring buffer as \<open>(raw * s + o) * LSB_SIZE\<close> with
  \<open>LSB_SIZE = 10.0 / 2 ^ 24\<close>. The operations of the source are the ones of the claim
  (\<open>convert_sample_cases\<close>), but its \<open>LSB_SIZE\<close> is
  \<open>(RANGE_MAX - RANGE_MIN) / (MAX_CODE + 1) = 10 / 2 ^ 23\<close>: the sample \<open>80 00 00\<close>, the
  minimum code, with slope 1 and offset 0 is delivered as \<open>-10\<close>, where the claim and the
  device information of the source itself (\<open>VOLTAGE_MIN\<close>, the voltage of the minimum code)
  say \<open>-5\<close>.
\<close>

theorem scaled_sample_uses_wrong_lsb:
  "a_in_read_scan_data daqhats_h_values scanning_state
     (hw_reply 0xDB [0x13, 0x00, 0x03, 0x00, 0x80, 0x00, 0x00, 0x00]) 0 1 True True True
     scanning_info = (RESULT_SUCCESS, [- 10], scanning_info\<lparr> channel_index := 1 \<rparr>) \<and>
   sint (sample_value 0x80 0x00 0x00) = - 8388608 \<and>
   (real_of_int (- 8388608) * 1 + 0) * (10 / 2 ^ 24) = - 5 \<and>
   LSB_SIZE = 10 / 2 ^ 23 \<and>
   real_of_int MIN_CODE * LSB_SIZE = - 10 \<and>
   VOLTAGE_MIN = - 5"
proof -
  have v: "sint (sample_value 0x80 0x00 0x00) = - 8388608"
    by (simp add: sint_sample_value sign_extend24_def)
  have hw: "hw_alloc_ok (hw_reply 0xDB [0x13, 0x00, 0x03, 0x00, 0x80, 0x00, 0x00, 0x00])"
    by (simp add: hw_reply_def)
  have "real_of_int (sint (sample_value 0x80 0x00 0x00)) = real_of_int (- 8388608)"
    by (simp only: v)
  then have vr: "(signed (sample_value 0x80 0x00 0x00) :: real) = - 8388608"
    by simp
  have conv: "convert_sample True True scanning_info [0x80, 0x00, 0x00] = - 10"
    by (simp add: convert_sample_def vr LSB_SIZE_value scanning_info_def zero_info_def Let_def)
  have nxt: "next_channel scanning_info = scanning_info\<lparr> channel_index := 1 \<rparr>"
    by (simp add: next_channel_def scanning_info_def zero_info_def Let_def word_le_nat_alt)
  have rd: "a_in_read_scan_data daqhats_h_values scanning_state
     (hw_reply 0xDB [0x13, 0x00, 0x03, 0x00, 0x80, 0x00, 0x00, 0x00]) 0 1 True True True
     scanning_info = (RESULT_SUCCESS, [- 10], scanning_info\<lparr> channel_index := 1 \<rparr>)"
    using check_addr_scanning hw
    by (simp add: a_in_read_scan_data_def SAMPLE_SIZE_BYTES_def replicate_numeral
        data_read_min_code bytes_of_def conv nxt Let_def)
  have m: "real_of_int MIN_CODE * LSB_SIZE = - 10"
    by (simp add: LSB_SIZE_value MIN_CODE_def)
  have vm: "VOLTAGE_MIN = - 5"
    by (simp add: VOLTAGE_MIN_def RANGE_MIN_def)
  have c: "(real_of_int (- 8388608) * 1 + 0) * (10 / 2 ^ 24) = - 5"
    by simp
  show ?thesis
    by (intro conjI rd v c LSB_SIZE_value m vm)
qed

theorem scaled_sample_uses_wrong_lsb_witness:
  "fst (snd (a_in_read_scan_data daqhats_h_values scanning_state
     (hw_reply 0xDB [0x13, 0x00, 0x03, 0x00, 0x80, 0x00, 0x00, 0x00]) 0 1 True True True
     scanning_info)) = [- 10]"
  using scaled_sample_uses_wrong_lsb by simp

section \<open>Reading all available samples\<close>

lemma check_addr_odd:
  "check_addr daqhats_h_values odd_state 0"
  by (simp add: check_addr_def daqhats_h_values_def odd_state_def idle_device_def zero_device_def)

lemma odd_fields:
  "buffer_depth odd_info = 3" "channel_count odd_info = 2" "buffer_size odd_info = 2000"
  "read_index odd_info = 0" "hw_overrun odd_info = False" "buffer_overrun odd_info = False"
  "thread_running odd_info = True" "triggered odd_info = True" "scan_running odd_info = True"
  "scan_buffer odd_info = [1, 2, 3] @ replicate 1997 0"
  by (simp_all add: odd_info_def scanning_info_def zero_info_def)

lemma copy1:
  "read_copy \<lparr> rv_info = odd_info, rv_buffer = Some [0, 0, 0, 0], samples_to_read = 3,
       samples_read = 0, stat = 0, error = False, timed_out = False \<rparr> =
     \<lparr> rv_info = odd_info\<lparr> read_index := 2, buffer_depth := 1 \<rparr>,
       rv_buffer = Some [1, 2, 0, 0], samples_to_read = 1,
       samples_read = 2, stat = 0, error = False, timed_out = False \<rparr>"
  by (simp add: read_copy_def odd_fields COUNT_NORMALIZE_def memcpy_at_def Let_def
      word_le_nat_alt word_less_nat_alt)

lemma copy2:
  "read_copy \<lparr> rv_info = odd_info\<lparr> read_index := 2, buffer_depth := 1 \<rparr>,
       rv_buffer = Some [1, 2, 0, 0], samples_to_read = 1,
       samples_read = 2, stat = 0, error = False, timed_out = False \<rparr> =
     \<lparr> rv_info = odd_info\<lparr> read_index := 2, buffer_depth := 1 \<rparr>,
       rv_buffer = Some [1, 2, 0, 0], samples_to_read = 1,
       samples_read = 2, stat = 0, error = False, timed_out = False \<rparr>"
  by (simp add: read_copy_def odd_fields Let_def word_le_nat_alt word_less_nat_alt)

lemma loop_odd:
  "read_loop daqhats_h_values False 1000000 idle_ticks
     \<lparr> rv_info = odd_info, rv_buffer = Some [0, 0, 0, 0], samples_to_read = 3,
       samples_read = 0, stat = 0, error = False, timed_out = False \<rparr> =
   Some \<lparr> rv_info = odd_info\<lparr> read_index := 2, buffer_depth := 1 \<rparr>,
       rv_buffer = Some [1, 2, 0, 0], samples_to_read = 1,
       samples_read = 2, stat = 0, error = False, timed_out = True \<rparr>"
  by (simp add: idle_ticks_def read_iteration_def copy1 copy2 read_continue_def odd_fields Let_def
      word_le_nat_alt word_less_nat_alt)

text \<open>
  Claim C9 says that \<open>mcc172_a_in_scan_read\<close> with \<open>samples_per_channel = -1\<close> returns
  Success with whatever was available. The source takes the number of unread samples as
  the target but copies only whole scans of \<open>channel_count\<close> samples: with three unread
  samples of a two-channel scan and a timeout of one second, one scan is copied, one
  sample stays, the loop waits for the timeout and the result is Timeout.
\<close>

theorem scan_read_all_available_times_out:
  "mcc172_a_in_scan_read daqhats_h_values idle_ticks odd_state 0 True (- 1) 1 (Some [0, 0, 0, 0]) 4
     True =
   Some \<lparr> ro_result = RESULT_TIMEOUT, ro_status = Some 12, ro_samples_read_per_channel = Some 1,
          ro_buffer = Some [1, 2, 0, 0],
          ro_info = Some (odd_info\<lparr> read_index := 2, buffer_depth := 1 \<rparr>) \<rparr>"
proof -
  have dev: "scan_info (the (devices odd_state 0)) = Some odd_info"
    by (simp add: odd_state_def)
  have bits: "STATUS_TRIGGERED daqhats_h_values = 4" "STATUS_RUNNING daqhats_h_values = 8"
    by (simp_all add: daqhats_h_values_def)
  show ?thesis
    using check_addr_odd
    by (simp add: mcc172_a_in_scan_read_def dev odd_fields loop_odd bits Let_def
        word_less_nat_alt)
qed

theorem scan_read_all_available_times_out_witness:
  "map_option ro_result
     (mcc172_a_in_scan_read daqhats_h_values idle_ticks odd_state 0 True (- 1) 1
        (Some [0, 0, 0, 0]) 4 True) = Some RESULT_TIMEOUT"
  using scan_read_all_available_times_out by simp

section \<open>The overrun test of the producer\<close>

lemma next_channel_fields:
  "\<exists>c. next_channel info = info\<lparr> channel_index := c \<rparr>"
  by (auto simp: next_channel_def Let_def)

lemma read_scan_loop_fields:
  "\<exists>c. snd (read_scan_loop n ptr scaled calibrated info) = info\<lparr> channel_index := c \<rparr>"
proof (induction n arbitrary: ptr info)
  case 0
  have "info = info\<lparr> channel_index := channel_index info \<rparr>" by simp
  then show ?case by (metis read_scan_loop.simps(1) snd_conv)
next
  case (Suc n)
  obtain c where c: "next_channel info = info\<lparr> channel_index := c \<rparr>"
    using next_channel_fields by blast
  from Suc.IH [of "drop SAMPLE_SIZE_BYTES ptr" "info\<lparr> channel_index := c \<rparr>"]
  obtain c' where "snd (read_scan_loop n (drop SAMPLE_SIZE_BYTES ptr) scaled calibrated
      (info\<lparr> channel_index := c \<rparr>)) = info\<lparr> channel_index := c \<rparr>\<lparr> channel_index := c' \<rparr>"
    by blast
  then show ?case
    by (simp add: c Let_def) blast
qed

lemma a_in_read_scan_data_fields:
  "\<exists>c. snd (snd (a_in_read_scan_data h st hw address n scaled calibrated given info)) =
     info\<lparr> channel_index := c \<rparr>"
proof -
  have triv: "\<exists>c. info = info\<lparr> channel_index := c \<rparr>"
    by (rule exI [of _ "channel_index info"]) simp
  show ?thesis
    using triv read_scan_loop_fields
    by (simp add: a_in_read_scan_data_def Let_def)
qed


lemma scan_thread_read_success:
  assumes rc: "read_count = (if buffer_size info - write_index info < ucast read_count0
                      then ucast (buffer_size info - write_index info) else read_count0)"
    and ok: "fst (a_in_read_scan_data h st hw address read_count scaled calibrated True info) =
               RESULT_SUCCESS"
    and res: "res = scan_thread_read h st hw address scaled calibrated read_count0 info l"
  shows "snd (snd res) = read_count \<and>
     buffer_depth (fst res) = buffer_depth info + ucast read_count \<and>
     buffer_size (fst res) = buffer_size info \<and>
     (if buffer_size info < buffer_depth info + ucast read_count
      then buffer_overrun (fst res) \<and> \<not> scan_running (fst res) \<and> is_done (fst (snd res))
      else buffer_overrun (fst res) = buffer_overrun info \<and>
           scan_running (fst res) = scan_running info \<and>
           is_done (fst (snd res)) = is_done l)"
proof -
  obtain c where c: "snd (snd (a_in_read_scan_data h st hw address read_count scaled calibrated
      True info)) = info\<lparr> channel_index := c \<rparr>"
    using a_in_read_scan_data_fields by blast
  show ?thesis
    unfolding res scan_thread_read_def
    by (simp add: rc [symmetric] ok c Let_def)
qed


lemma scan_thread_loop_done:
  "is_done (snd s) \<Longrightarrow> scan_thread_loop h st address scaled calibrated hws s = Some s"
  by (cases hws) simp_all

text \<open>
  Claim C8. In every iteration of the producer loop that writes \<open>read_count\<close> samples into
  the ring buffer, \<open>buffer_depth\<close> grows by \<open>read_count\<close>; if the resulting \<open>buffer_depth\<close>
  exceeds \<open>buffer_size\<close>, the session has \<open>buffer_overrun = true\<close> and
  \<open>scan_running = false\<close> and the loop ends with this iteration; otherwise
  \<open>buffer_depth \<le> buffer_size\<close> holds after the write. The consumer does not run during
  the iteration.
\<close>

theorem producer_overrun_stops:
  assumes w: "iteration_writes h st address scaled calibrated hw info read_count"
    and s': "s' = scan_thread_body h st address scaled calibrated hw (info, l)"
  shows "buffer_depth (fst s') = buffer_depth info + ucast read_count \<and>
         buffer_size (fst s') = buffer_size info \<and>
         (if buffer_depth (fst s') > buffer_size (fst s')
          then buffer_overrun (fst s') \<and> \<not> scan_running (fst s') \<and> is_done (snd s') \<and>
               scan_thread_loop h st address scaled calibrated hws s' = Some s'
          else buffer_depth (fst s') \<le> buffer_size (fst s'))"
proof -
  define reply where "reply = spi_transfer h st (status_hw hw) address CMD_AINSCANSTATUS None 0
                   (Some (replicate 5 0)) 5"
  define rx where "rx = bytes_of (snd reply)"
  define avail where "avail = (push_bit 8 (ucast (rx ! 2)) + ucast (rx ! 1) :: u16)"
  define maxr where "maxr = (push_bit 8 (ucast (rx ! 4)) + ucast (rx ! 3) :: u16)"
  define info1 where "info1 = info\<lparr> hw_overrun := False, triggered := True \<rparr>"
  define l1 where "l1 = l\<lparr> status_count := status_count l + 1 \<rparr>"
  define rc0 where "rc0 = choose_read_count (rx ! 0 AND 0x01 = 0x01) avail maxr (read_threshold info)"
  define res where "res = scan_thread_read h st (data_hw hw) address scaled calibrated rc0 info1 l1"
  from w have ok: "fst reply = RESULT_SUCCESS" and nohw: "rx ! 0 AND 0x02 \<noteq> 0x02"
    and trig: "rx ! 0 AND 0x04 = 0x04" and pos: "rc0 > 0"
    and rc: "read_count = (if buffer_size info - write_index info < ucast rc0
                      then ucast (buffer_size info - write_index info) else rc0)"
    and rd: "fst (a_in_read_scan_data h st (data_hw hw) address read_count scaled calibrated True
               info1) = RESULT_SUCCESS"
    unfolding iteration_writes_def reply_def rx_def avail_def maxr_def info1_def rc0_def Let_def
    by blast+
  have rc1: "read_count = (if buffer_size info1 - write_index info1 < ucast rc0
                      then ucast (buffer_size info1 - write_index info1) else rc0)"
    using rc by (simp add: info1_def)
  note R = scan_thread_read_success [OF rc1 rd res_def]
  have upd: "info\<lparr> hw_overrun := (rx ! 0 AND 0x02 = 0x02),
                    triggered := (rx ! 0 AND 0x04 = 0x04) \<rparr> = info1"
    using nohw trig by (simp add: info1_def)
  have thr: "read_threshold info1 = read_threshold info"
    by (simp add: info1_def)
  have h1: "\<not> hw_overrun info1" and t1: "triggered info1"
    by (simp_all add: info1_def)
  have sel: "(if rc0 > 0 then res else (info1, l1, rc0)) = res"
    using pos by simp
  have "s' = (if fst reply \<noteq> RESULT_SUCCESS then (info, l)
              else if hw_overrun info1 then (info1\<lparr> scan_running := False \<rparr>, l1\<lparr> is_done := True \<rparr>)
              else if \<not> triggered info1 then (info1, l1\<lparr> sleep_us := TRIG_SLEEP_US \<rparr>)
              else if \<not> (rx ! 0 AND 0x01 = 0x01) \<and>
                      avail = snd (snd (if rc0 > 0 then res else (info1, l1, rc0)))
                   then ((fst (if rc0 > 0 then res else (info1, l1, rc0)))\<lparr> scan_running := False \<rparr>,
                         (fst (snd (if rc0 > 0 then res else (info1, l1, rc0))))\<lparr> is_done := True \<rparr>)
                   else (fst (if rc0 > 0 then res else (info1, l1, rc0)),
                         fst (snd (if rc0 > 0 then res else (info1, l1, rc0)))))"
    unfolding s' scan_thread_body_def Let_def fst_conv snd_conv
    unfolding reply_def [symmetric]
    unfolding rx_def [symmetric]
    unfolding avail_def [symmetric] maxr_def [symmetric]
    unfolding upd
    unfolding thr
    unfolding rc0_def [symmetric] l1_def [symmetric]
    unfolding res_def [symmetric]
    by (rule refl)
  then have body: "s' = (if \<not> (rx ! 0 AND 0x01 = 0x01) \<and> avail = snd (snd res)
                    then ((fst res)\<lparr> scan_running := False \<rparr>, (fst (snd res))\<lparr> is_done := True \<rparr>)
                    else (fst res, fst (snd res)))"
    using ok h1 t1 unfolding sel by (simp split del: if_split)
  have depth: "buffer_depth (fst s') = buffer_depth info + ucast read_count"
    using R by (simp add: body info1_def)
  have size: "buffer_size (fst s') = buffer_size info"
    using R by (simp add: body info1_def)
  show ?thesis
  proof (cases "buffer_size info < buffer_depth info + ucast read_count")
    case True
    with R have o: "buffer_overrun (fst res)" "\<not> scan_running (fst res)" "is_done (fst (snd res))"
      by (simp_all add: info1_def)
    then have "buffer_overrun (fst s')" "\<not> scan_running (fst s')" "is_done (snd s')"
      by (simp_all add: body)
    with True depth size show ?thesis
      by (simp add: scan_thread_loop_done)
  next
    case False
    with depth size show ?thesis by simp
  qed
qed


lemma check_addr_full:
  "check_addr daqhats_h_values full_state 0"
  by (simp add: check_addr_def daqhats_h_values_def full_state_def idle_device_def zero_device_def)

lemma status_reply_full:
  "spi_transfer daqhats_h_values full_state (status_hw step_hw) 0 CMD_AINSCANSTATUS None 0
     (Some (replicate 5 0)) 5 = (RESULT_SUCCESS, Some [0x05, 0x02, 0x00, 0x02, 0x00])"
  using check_addr_full by (simp add: spi_eval step_hw_def CMD_AINSCANSTATUS_def)

lemma data_reply_full:
  "spi_transfer daqhats_h_values full_state (data_hw step_hw) 0 CMD_AINSCANDATA
     (Some [2, 0]) 2 (Some [0, 0, 0, 0, 0, 0]) 6 =
     (RESULT_SUCCESS, Some [0x00, 0x00, 0x01, 0x00, 0x00, 0x02])"
  using check_addr_full by (simp add: spi_eval step_hw_def CMD_AINSCANDATA_def)

lemma full_fields:
  "buffer_depth full_info = 2000" "buffer_size full_info = 2000" "write_index full_info = 0"
  "read_threshold full_info = 2"
  by (simp_all add: full_info_def scanning_info_def zero_info_def)

lemma data_read_full:
  "fst (a_in_read_scan_data daqhats_h_values full_state (data_hw step_hw) 0 2 True True True
     (full_info\<lparr> hw_overrun := False, triggered := True \<rparr>)) = RESULT_SUCCESS"
proof -
  have hw: "hw_alloc_ok (data_hw step_hw)"
    by (simp add: step_hw_def hw_reply_def)
  show ?thesis
    using check_addr_full hw
    by (simp add: a_in_read_scan_data_def SAMPLE_SIZE_BYTES_def replicate_numeral
        data_reply_full Let_def)
qed

lemma iteration_writes_full:
  "iteration_writes daqhats_h_values full_state 0 True True step_hw full_info 2"
  by (simp add: iteration_writes_def status_reply_full bytes_of_def choose_read_count_def
      full_fields MAX_SAMPLES_READ_def MAX_SPI_TRANSFER_def MSG_RX_HEADER_SIZE_def
      SAMPLE_SIZE_BYTES_def data_read_full Let_def word_le_nat_alt word_less_nat_alt)

theorem producer_overrun_stops_witness:
  "iteration_writes daqhats_h_values full_state 0 True True step_hw full_info 2 \<and>
   buffer_depth (fst (scan_thread_body daqhats_h_values full_state 0 True True step_hw
     (full_info, first_locals))) = 2002 \<and>
   buffer_overrun (fst (scan_thread_body daqhats_h_values full_state 0 True True step_hw
     (full_info, first_locals))) \<and>
   \<not> scan_running (fst (scan_thread_body daqhats_h_values full_state 0 True True step_hw
     (full_info, first_locals))) \<and>
   is_done (snd (scan_thread_body daqhats_h_values full_state 0 True True step_hw
     (full_info, first_locals))) \<and>
   scan_thread_loop daqhats_h_values full_state 0 True True [step_hw]
     (scan_thread_body daqhats_h_values full_state 0 True True step_hw (full_info, first_locals)) =
     Some (scan_thread_body daqhats_h_values full_state 0 True True step_hw
       (full_info, first_locals))"
  using producer_overrun_stops [OF iteration_writes_full refl, of first_locals "[step_hw]"]
    iteration_writes_full
  by (simp add: full_fields word_less_nat_alt split: if_splits)

end
